theory Spec2Isabelle
  imports Main "HOL-Library.Sublist" "HOL-Library.AList"
begin

section \<open>JavaScript strings\<close>

text \<open>
  Strings are modelled as lists of 8-bit characters, that is, JavaScript strings whose
  code units lie below 256. On these code units \<open>String.prototype.toLowerCase\<close> adds 32
  to \<open>A\<close>..\<open>Z\<close> and to the Latin-1 capitals \<open>0xC0\<close>..\<open>0xDE\<close> (the multiplication
  sign \<open>0xD7\<close> excepted) and leaves every other code unit alone.
\<close>

definition toLowerCaseChar :: "char \<Rightarrow> char" where
  "toLowerCaseChar c =
     (let n = (of_char c :: nat)
      in if (65 \<le> n \<and> n \<le> 90) \<or> (192 \<le> n \<and> n \<le> 222 \<and> n \<noteq> 215)
         then char_of (n + 32) else c)"

definition toLowerCase :: "string \<Rightarrow> string" where
  "toLowerCase s = map toLowerCaseChar s"

text \<open>\<open>s.includes(q)\<close>: \<open>q\<close> occurs in \<open>s\<close> as a contiguous substring.\<close>

fun includes_str :: "string \<Rightarrow> string \<Rightarrow> bool" where
  "includes_str [] q = (q = [])"
| "includes_str (c # cs) q = (prefix q (c # cs) \<or> includes_str cs q)"

text \<open>\<open>s.trim()\<close>: white space of the Latin-1 range is removed at both ends.\<close>

definition isWhiteSpace :: "char \<Rightarrow> bool" where
  "isWhiteSpace c = ((of_char c :: nat) \<in> {9, 10, 11, 12, 13, 32, 160})"

definition trim :: "string \<Rightarrow> string" where
  "trim s = rev (dropWhile isWhiteSpace (rev (dropWhile isWhiteSpace s)))"

text \<open>\<open>a || b\<close> on strings: the empty string is falsy.\<close>

definition orElse :: "string \<Rightarrow> string \<Rightarrow> string" where
  "orElse a b = (if a \<noteq> [] then a else b)"

text \<open>
  A value interpolated into a template literal: \<open>null\<close> prints as \<open>null\<close>. Optional
  arguments of the facade default to \<open>null\<close>, modelled as \<open>None\<close>.
\<close>

definition template :: "string option \<Rightarrow> string" where
  "template v = (case v of None \<Rightarrow> ''null'' | Some s \<Rightarrow> s)"

text \<open>A field that may be absent prints as \<open>undefined\<close> in a template literal.\<close>

definition templateField :: "string option \<Rightarrow> string" where
  "templateField v = (case v of None \<Rightarrow> ''undefined'' | Some s \<Rightarrow> s)"

text \<open>Truthiness of an optional string: \<open>null\<close>, \<open>undefined\<close> and \<open>''\<close> are falsy.\<close>

definition truthy :: "string option \<Rightarrow> bool" where
  "truthy v = (case v of None \<Rightarrow> False | Some s \<Rightarrow> s \<noteq> [])"

section \<open>Data model\<close>

datatype error = TypeError | Error string

datatype idval = IdStr string | IdNum int

record content =
  overview :: string
  symptoms :: "string list"
  causes :: "string list"
  treatments :: "string list"
  legalOptions :: "string list"
  settlements :: string

record article =
  articleId :: idval
  title :: string
  description :: string
  slug :: string
  category :: string
  date :: "string option"
  content :: content
  articleSource :: string

record lawFirm =
  firmId :: string
  name :: "string option"
  location :: string
  phone :: "string option"
  website :: "string option"
  specialties :: "string list"
  experience :: "string option"
  successRate :: "string option"
  notableSettlements :: "string list"
  firmSource :: string

text \<open>
  Every property of a settlement record may be absent (\<open>None\<close> is \<open>undefined\<close>).
  No settlement record that the service builds is given an \<open>id\<close>.
\<close>

record settlementRecord =
  settlementId :: "string option"
  condition :: "string option"
  state :: "string option"
  settlementRange :: "string option"
  averageSettlement :: "string option"
  totalCases :: "string option"
  year :: "string option"
  settlementSource :: "string option"

section \<open>Helper methods of DataIntegrationService\<close>

subsection \<open>createSlug\<close>

text \<open>The character class \<open>[a-z0-9]\<close>.\<close>

definition alnum :: "char \<Rightarrow> bool" where
  "alnum c = (let n = (of_char c :: nat) in (97 \<le> n \<and> n \<le> 122) \<or> (48 \<le> n \<and> n \<le> 57))"

text \<open>\<open>.replace(/[^a-z0-9]+/g, '-')\<close>: every maximal run outside the class becomes one hyphen.\<close>

function replaceRuns :: "string \<Rightarrow> string" where
  "replaceRuns [] = []"
| "replaceRuns (c # cs) =
     (if alnum c then c # replaceRuns cs
      else CHR ''-'' # replaceRuns (dropWhile (\<lambda>d. \<not> alnum d) cs))"
  by pat_completeness auto
termination
  by (relation "measure length") (auto simp: less_Suc_eq_le length_dropWhile_le)

text \<open>\<open>.replace(/(^-|-$)/g, '')\<close>: one hyphen at the start and one at the end are removed.\<close>

definition trimHyphens :: "string \<Rightarrow> string" where
  "trimHyphens s =
     (let s1 = (case s of [] \<Rightarrow> [] | c # cs \<Rightarrow> if c = CHR ''-'' then cs else s)
      in if s1 \<noteq> [] \<and> last s1 = CHR ''-'' then butlast s1 else s1)"

definition createSlug :: "string \<Rightarrow> string" where
  "createSlug text = trimHyphens (replaceRuns (toLowerCase text))"

subsection \<open>parseList\<close>

fun splitOn :: "(char \<Rightarrow> bool) \<Rightarrow> string \<Rightarrow> string list" where
  "splitOn p [] = [[]]"
| "splitOn p (c # cs) =
     (if p c then [] # splitOn p cs
      else (case splitOn p cs of [] \<Rightarrow> [[c]] | w # ws \<Rightarrow> (c # w) # ws))"

definition parseList :: "string \<Rightarrow> string list" where
  "parseList text =
     (if text = [] then []
      else filter (\<lambda>item. item \<noteq> [])
             (map trim (splitOn (\<lambda>c. c \<in> set '',;|'') text)))"

subsection \<open>The built-in fallback data\<close>

text \<open>
  \<open>getFallbackArticles\<close> stamps every article with \<open>new Date().toISOString()\<close>; the
  rendering of the clock is the argument \<open>stamp\<close>.
\<close>

definition fallbackArticle1 :: "string \<Rightarrow> article" where
  "fallbackArticle1 stamp = \<lparr>
     articleId = IdNum 1,
     title = ''Mesothelioma and Asbestos Exposure'',
     description = ''Comprehensive guide to mesothelioma, its causes, symptoms, and legal options for victims of asbestos exposure.'',
     slug = ''mesothelioma-asbestos-exposure'',
     category = ''medical'',
     date = Some stamp,
     content = \<lparr>
       overview = ''Mesothelioma is a rare and aggressive cancer that develops in the lining of the lungs, abdomen, or heart. It is primarily caused by exposure to asbestos, a naturally occurring mineral that was widely used in construction, manufacturing, and other industries until the late 1970s.'',
       symptoms = [''Chest pain and shortness of breath'',
                   ''Persistent cough and fatigue'',
                   ''Weight loss and loss of appetite'',
                   ''Fluid buildup around the lungs'',
                   ''Abdominal pain and swelling (for peritoneal mesothelioma)''],
       causes = [''Asbestos exposure in the workplace'',
                 ''Secondary exposure through family members'',
                 ''Environmental exposure near asbestos mines or factories'',
                 ''Exposure during home renovations or demolition''],
       treatments = [''Surgery to remove tumors'',
                     ''Chemotherapy and radiation therapy'',
                     ''Immunotherapy and targeted therapy'',
                     ''Palliative care for symptom management''],
       legalOptions = [''Personal injury lawsuits against asbestos manufacturers'',
                       ''Workers' compensation claims'',
                       ''Asbestos trust fund claims'',
                       ''Wrongful death lawsuits for family members''],
       settlements = ''Mesothelioma settlements typically range from $1.2 million to $2.4 million, with some cases reaching $10 million or more. Factors affecting settlement amounts include the severity of the disease, age of the victim, exposure history, and jurisdiction.''\<rparr>,
     articleSource = ''fallback''\<rparr>"

definition fallbackArticle2 :: "string \<Rightarrow> article" where
  "fallbackArticle2 stamp = \<lparr>
     articleId = IdNum 2,
     title = ''Roundup Weedkiller Cancer Lawsuits'',
     description = ''Information about Roundup lawsuits alleging the weedkiller causes non-Hodgkin lymphoma and other cancers.'',
     slug = ''roundup-weedkiller-cancer-lawsuits'',
     category = ''legal'',
     date = Some stamp,
     content = \<lparr>
       overview = ''Roundup is a popular weedkiller manufactured by Monsanto (now owned by Bayer). The active ingredient, glyphosate, has been linked to non-Hodgkin lymphoma and other cancers in numerous studies and lawsuits.'',
       symptoms = [''Swollen lymph nodes in neck, armpits, or groin'',
                   ''Unexplained weight loss and fatigue'',
                   ''Night sweats and fever'',
                   ''Chest pain and shortness of breath'',
                   ''Abdominal pain and swelling''],
       causes = [''Direct exposure to Roundup during application'',
                 ''Exposure to glyphosate in food and water'',
                 ''Occupational exposure in agriculture and landscaping'',
                 ''Residential use in gardens and lawns''],
       treatments = [''Chemotherapy and radiation therapy'',
                     ''Immunotherapy and targeted therapy'',
                     ''Stem cell transplantation'',
                     ''Clinical trials for new treatments''],
       legalOptions = [''Product liability lawsuits against Bayer/Monsanto'',
                       ''Class action lawsuits'',
                       ''Wrongful death claims'',
                       ''Settlement fund claims''],
       settlements = ''Bayer has agreed to pay $10.9 billion to settle approximately 100,000 Roundup lawsuits. Individual settlements typically range from $5,000 to $250,000, depending on the severity of the cancer and exposure history.''\<rparr>,
     articleSource = ''fallback''\<rparr>"

definition fallbackArticle3 :: "string \<Rightarrow> article" where
  "fallbackArticle3 stamp = \<lparr>
     articleId = IdNum 3,
     title = ''3M Combat Arms Earplug Litigation'',
     description = ''Details about the 3M earplug lawsuits alleging defective military earplugs caused hearing loss and tinnitus.'',
     slug = ''3m-combat-arms-earplug-litigation'',
     category = ''legal'',
     date = Some stamp,
     content = \<lparr>
       overview = ''3M Combat Arms earplugs were issued to military personnel between 2003 and 2015. Veterans allege the earplugs were defective and failed to protect their hearing, leading to hearing loss and tinnitus.'',
       symptoms = [''Hearing loss in one or both ears'',
                   ''Ringing or buzzing in the ears (tinnitus)'',
                   ''Difficulty understanding speech'',
                   ''Sensitivity to loud noises'',
                   ''Balance problems and dizziness''],
       causes = [''Defective design of the earplugs'',
                 ''Failure to properly seal the ear canal'',
                 ''Inadequate noise reduction'',
                 ''Manufacturing defects''],
       treatments = [''Hearing aids and cochlear implants'',
                     ''Tinnitus management therapy'',
                     ''Cognitive behavioral therapy'',
                     ''Sound therapy and masking devices''],
       legalOptions = [''Product liability lawsuits against 3M'',
                       ''Veterans' disability benefits'',
                       ''Class action lawsuits'',
                       ''Settlement fund claims''],
       settlements = ''3M has agreed to pay $6 billion to settle approximately 260,000 earplug lawsuits. Individual settlements average around $24,000, with some cases reaching $100,000 or more depending on the severity of hearing damage.''\<rparr>,
     articleSource = ''fallback''\<rparr>"

definition fallbackArticle4 :: "string \<Rightarrow> article" where
  "fallbackArticle4 stamp = \<lparr>
     articleId = IdNum 4,
     title = ''Silicosis and Silica Dust Exposure'',
     description = ''Information about silicosis, a lung disease caused by exposure to silica dust in construction and manufacturing.'',
     slug = ''silicosis-silica-dust-exposure'',
     category = ''medical'',
     date = Some stamp,
     content = \<lparr>
       overview = ''Silicosis is a progressive lung disease caused by inhaling crystalline silica dust. It commonly affects workers in construction, mining, manufacturing, and other industries where silica dust is present.'',
       symptoms = [''Shortness of breath and chest pain'',
                   ''Persistent cough and fatigue'',
                   ''Weight loss and loss of appetite'',
                   ''Fever and night sweats'',
                   ''Cyanosis (bluish skin color)''],
       causes = [''Exposure to silica dust in construction'',
                 ''Mining and quarrying operations'',
                 ''Manufacturing of glass, ceramics, and stone products'',
                 ''Sandblasting and abrasive blasting'',
                 ''Tunnel construction and drilling''],
       treatments = [''Oxygen therapy and pulmonary rehabilitation'',
                     ''Medications to reduce inflammation'',
                     ''Lung transplantation in severe cases'',
                     ''Prevention of further exposure''],
       legalOptions = [''Workers' compensation claims'',
                       ''Personal injury lawsuits against employers'',
                       ''Product liability claims against equipment manufacturers'',
                       ''Class action lawsuits''],
       settlements = ''Silicosis settlements vary widely based on the severity of the disease and jurisdiction. Typical settlements range from $50,000 to $500,000, with some cases reaching $1 million or more for severe cases.''\<rparr>,
     articleSource = ''fallback''\<rparr>"

definition fallbackArticle5 :: "string \<Rightarrow> article" where
  "fallbackArticle5 stamp = \<lparr>
     articleId = IdNum 5,
     title = ''Talcum Powder Ovarian Cancer Lawsuits'',
     description = ''Information about talcum powder lawsuits alleging the product causes ovarian cancer in women.'',
     slug = ''talcum-powder-ovarian-cancer-lawsuits'',
     category = ''legal'',
     date = Some stamp,
     content = \<lparr>
       overview = ''Talcum powder lawsuits allege that Johnson & Johnson's talc-based products, including Baby Powder and Shower to Shower, contain asbestos and cause ovarian cancer in women who used them for feminine hygiene.'',
       symptoms = [''Abdominal bloating and pain'',
                   ''Pelvic pain and pressure'',
                   ''Changes in bowel habits'',
                   ''Frequent urination'',
                   ''Unexplained weight loss''],
       causes = [''Long-term use of talcum powder for feminine hygiene'',
                 ''Asbestos contamination in talc products'',
                 ''Inhalation of talc particles'',
                 ''Application to genital area''],
       treatments = [''Surgery to remove ovaries and fallopian tubes'',
                     ''Chemotherapy and radiation therapy'',
                     ''Targeted therapy and immunotherapy'',
                     ''Hormone therapy''],
       legalOptions = [''Product liability lawsuits against Johnson & Johnson'',
                       ''Wrongful death claims'',
                       ''Class action lawsuits'',
                       ''Settlement fund claims''],
       settlements = ''Johnson & Johnson has faced thousands of talcum powder lawsuits. Individual settlements have ranged from $100,000 to $100 million, with some jury verdicts exceeding $4 billion. The company has set aside billions for settlements.''\<rparr>,
     articleSource = ''fallback''\<rparr>"

definition fallbackArticle6 :: "string \<Rightarrow> article" where
  "fallbackArticle6 stamp = \<lparr>
     articleId = IdNum 6,
     title = ''Paraquat Parkinson's Disease Lawsuits'',
     description = ''Information about Paraquat lawsuits alleging the herbicide causes Parkinson's disease in agricultural workers.'',
     slug = ''paraquat-parkinsons-disease-lawsuits'',
     category = ''legal'',
     date = Some stamp,
     content = \<lparr>
       overview = ''Paraquat is a highly toxic herbicide used in agriculture. Studies have linked Paraquat exposure to an increased risk of Parkinson's disease, leading to thousands of lawsuits against manufacturers.'',
       symptoms = [''Tremors in hands, arms, legs, or jaw'',
                   ''Slowed movement and stiffness'',
                   ''Balance problems and falls'',
                   ''Speech and swallowing difficulties'',
                   ''Cognitive changes and depression''],
       causes = [''Direct exposure during application'',
                 ''Inhalation of Paraquat spray'',
                 ''Skin contact with contaminated surfaces'',
                 ''Accidental ingestion or exposure''],
       treatments = [''Medications to manage symptoms'',
                     ''Deep brain stimulation'',
                     ''Physical and occupational therapy'',
                     ''Speech therapy and dietary changes''],
       legalOptions = [''Product liability lawsuits against manufacturers'',
                       ''Workers' compensation claims'',
                       ''Class action lawsuits'',
                       ''Wrongful death claims''],
       settlements = ''Paraquat lawsuits are still in early stages, but settlements are expected to range from $100,000 to $1 million or more, depending on the severity of Parkinson's symptoms and exposure history.''\<rparr>,
     articleSource = ''fallback''\<rparr>"

definition getFallbackArticles :: "string \<Rightarrow> article list" where
  "getFallbackArticles stamp = [fallbackArticle1 stamp, fallbackArticle2 stamp, fallbackArticle3 stamp, fallbackArticle4 stamp, fallbackArticle5 stamp, fallbackArticle6 stamp]"


definition getFallbackLawFirms :: "lawFirm list" where
  "getFallbackLawFirms =
     [\<lparr>firmId = ''fallback_firm_1'',
       name = Some ''Saddle Rock Legal Group'',
       location = ''Nationwide'',
       phone = Some ''(800) 123-4567'',
       website = Some ''https://legalinjuryadvocates.com'',
       specialties = [''Mesothelioma'', ''Asbestos'', ''Product Liability''],
       experience = Some ''20+ years'',
       successRate = Some ''95%'',
       notableSettlements = [''$2.4M mesothelioma settlement'', ''$1.8M asbestos case''],
       firmSource = ''fallback''\<rparr>,
      \<lparr>firmId = ''fallback_firm_2'',
       name = Some ''National Injury Law Center'',
       location = ''California, Texas, Florida'',
       phone = Some ''(800) 987-6543'',
       website = Some ''https://nationalinjury.com'',
       specialties = [''Roundup'', ''Talcum Powder'', ''Medical Devices''],
       experience = Some ''15+ years'',
       successRate = Some ''90%'',
       notableSettlements = [''$250K Roundup settlement'', ''$500K talc case''],
       firmSource = ''fallback''\<rparr>,
      \<lparr>firmId = ''fallback_firm_3'',
       name = Some ''Veterans Legal Services'',
       location = ''Nationwide'',
       phone = Some ''(800) 555-0123'',
       website = Some ''https://veteranslegal.org'',
       specialties = [''3M Earplugs'', ''Military Injuries'', ''VA Benefits''],
       experience = Some ''25+ years'',
       successRate = Some ''88%'',
       notableSettlements = [''$100K earplug case'', ''$75K tinnitus claim''],
       firmSource = ''fallback''\<rparr>]"

text \<open>
  \<open>getDefaultSettlementData\<close> looks the lowercased condition up in an object literal
  with four own keys. A lookup by name also finds the members every object inherits;
  the only inherited names that a lowercased string can spell are \<open>constructor\<close> and
  \<open>__proto__\<close>. What is found there is an object none of whose settlement fields is
  present, so it is modelled as the record with every field absent.
\<close>

definition defaultSettlement ::
  "string \<Rightarrow> string \<Rightarrow> string \<Rightarrow> string \<Rightarrow> settlementRecord" where
  "defaultSettlement c r a t =
     \<lparr>settlementId = None, condition = Some c, state = None, settlementRange = Some r,
      averageSettlement = Some a, totalCases = Some t, year = Some ''2024'',
      settlementSource = Some ''fallback''\<rparr>"

definition inheritedMember :: settlementRecord where
  "inheritedMember =
     \<lparr>settlementId = None, condition = None, state = None, settlementRange = None,
      averageSettlement = None, totalCases = None, year = None, settlementSource = None\<rparr>"

definition defaults :: "string \<Rightarrow> settlementRecord option" where
  "defaults k =
     (if k = ''mesothelioma'' then
        Some (defaultSettlement ''Mesothelioma'' ''$1.2 million to $2.4 million''
                ''$1.8 million'' ''Thousands'')
      else if k = ''lung cancer'' then
        Some (defaultSettlement ''Lung Cancer'' ''$500,000 to $1.5 million''
                ''$1 million'' ''Hundreds'')
      else if k = ''ovarian cancer'' then
        Some (defaultSettlement ''Ovarian Cancer'' ''$100,000 to $500,000''
                ''$300,000'' ''Thousands'')
      else if k = ''non-hodgkin lymphoma'' then
        Some (defaultSettlement ''Non-Hodgkin Lymphoma'' ''$50,000 to $250,000''
                ''$150,000'' ''Hundreds'')
      else if k = ''constructor'' \<or> k = ''__proto__'' then Some inheritedMember
      else None)"

definition getDefaultSettlementData :: "string \<Rightarrow> settlementRecord list" where
  "getDefaultSettlementData cond =
     [case defaults (toLowerCase cond) of
        Some r \<Rightarrow> r
      | None \<Rightarrow> defaultSettlement cond ''Varies by case'' ''Contact attorney for estimate''
                  ''Varies'']"

subsection \<open>mergeArticles\<close>

fun dedupe :: "string set \<Rightarrow> article list \<Rightarrow> article list" where
  "dedupe seen [] = []"
| "dedupe seen (a # as) =
     (let key = toLowerCase (title a)
      in if key \<in> seen then dedupe seen as else a # dedupe (insert key seen) as)"

definition mergeArticles :: "article list \<Rightarrow> article list \<Rightarrow> article list" where
  "mergeArticles sheetsArticles hubspotArticles =
     dedupe {} (sheetsArticles @ hubspotArticles)"

subsection \<open>mergeSettlementData\<close>

text \<open>
  The group key is the template \<open>`${item.condition}_${item.state || 'all'}`\<close>. The
  groups live in a plain object, so a key that spells an inherited member of
  \<open>Object.prototype\<close> finds that member instead of \<open>undefined\<close>, and the call of
  \<open>push\<close> on it raises a TypeError.
\<close>

definition groupKey :: "settlementRecord \<Rightarrow> string" where
  "groupKey item =
     templateField (condition item) @ ''_'' @
     (case state item of None \<Rightarrow> ''all'' | Some s \<Rightarrow> if s = [] then ''all'' else s)"

definition inheritedKeys :: "string list" where
  "inheritedKeys =
     [''__proto__'', ''__defineGetter__'', ''__defineSetter__'', ''__lookupGetter__'',
      ''__lookupSetter__'']"

type_synonym groups = "(string \<times> settlementRecord list) list"

definition addToGroup :: "groups \<Rightarrow> settlementRecord \<Rightarrow> groups" where
  "addToGroup grouped item =
     (let key = groupKey item
      in case map_of grouped key of
           None \<Rightarrow> grouped @ [(key, [item])]
         | Some g \<Rightarrow> AList.update key (g @ [item]) grouped)"

definition pick :: "settlementRecord \<Rightarrow> settlementRecord \<Rightarrow> settlementRecord" where
  "pick best current =
     (if truthy (settlementRange current) \<and> \<not> truthy (settlementRange best)
      then current else best)"

text \<open>\<open>group.reduce(f)\<close> without an initial value raises a TypeError on an empty array.\<close>

fun reduceBest :: "settlementRecord list \<Rightarrow> error + settlementRecord" where
  "reduceBest [] = Inl TypeError"
| "reduceBest (x # xs) = Inr (foldl pick x xs)"

fun sequence :: "(error + 'a) list \<Rightarrow> error + 'a list" where
  "sequence [] = Inr []"
| "sequence (Inl e # rs) = Inl e"
| "sequence (Inr x # rs) = (case sequence rs of Inl e \<Rightarrow> Inl e | Inr xs \<Rightarrow> Inr (x # xs))"

definition mergeSettlementData ::
  "settlementRecord list \<Rightarrow> settlementRecord list \<Rightarrow> error + settlementRecord list" where
  "mergeSettlementData sheetsData hubspotData =
     (let merged = sheetsData @ hubspotData
      in if list_ex (\<lambda>item. groupKey item \<in> set inheritedKeys) merged then Inl TypeError
         else sequence (map (\<lambda>(key, group). reduceBest group) (foldl addToGroup [] merged)))"

section \<open>The environment: outcomes of network requests, clock and random numbers\<close>

text \<open>
  A row object as \<open>readSheet\<close> builds it: its own properties in insertion order.
\<close>

type_synonym row = "(string \<times> string) list"

record disease =
  diseaseId :: string
  diseaseName :: string
  diseaseCategory :: string
  diseaseDescription :: string
  lastUpdated :: "string option"
  diseaseSymptoms :: "string list"
  diseaseCauses :: "string list"

record hubspotFirm =
  hsId :: string
  hsName :: "string option"
  hsLocation :: string
  hsPhone :: "string option"
  hsWebsite :: "string option"
  hsSpecialties :: "string list"
  hsExperience :: "string option"
  hsSuccessRate :: "string option"
  hsNotableSettlements :: "string list"

text \<open>
  The connector's \<open>getSettlementData\<close> resolves to a plain object
  \<open>{min, max, stateMultiplier, severityMultipliers}\<close> or to one of the default ranges
  \<open>{min, max}\<close>, on success and in its own catch branch alike: never to an array.
\<close>

record settlementRanges =
  rangeMin :: "int option"
  rangeMax :: "int option"

text \<open>
  \<open>makeRequest\<close> is the outcome of the request for the values of a sheet: an error, or
  the field \<open>values\<close> of the response (\<open>None\<close> when it is absent).
  \<open>random\<close> renders the value of \<open>Math.random()\<close> drawn for a row of a sheet, and
  \<open>toISOString\<close> renders the clock.
\<close>

record env =
  makeRequest :: "string \<Rightarrow> error + string list list option"
  searchDiseases :: "error + disease list"
  findLawFirms :: "string \<Rightarrow> string option \<Rightarrow> error + hubspotFirm list"
  hubspotSettlementData :: "string \<Rightarrow> string option \<Rightarrow> settlementRanges"
  random :: "string \<Rightarrow> nat \<Rightarrow> string"
  toISOString :: string

section \<open>GoogleSheetsConnector\<close>

text \<open>\<open>row[index] || ''\<close>\<close>

definition cell :: "string list \<Rightarrow> nat \<Rightarrow> string" where
  "cell r i = (if i < length r then r ! i else [])"

text \<open>
  \<open>obj[header] = v\<close>: assigning a string to \<open>__proto__\<close> changes nothing; any other
  name becomes (or overwrites) an own property.
\<close>

definition setProp :: "row \<Rightarrow> string \<Rightarrow> string \<Rightarrow> row" where
  "setProp obj h v = (if h = ''__proto__'' then obj else AList.update h v obj)"

definition rowObject :: "string list \<Rightarrow> string list \<Rightarrow> row" where
  "rowObject headers r =
     fold (\<lambda>(h, i) obj. setProp obj h (cell r i)) (zip headers [0..<length headers]) []"

definition readSheet :: "env \<Rightarrow> string \<Rightarrow> error + (string list \<times> row list)" where
  "readSheet e sheetName =
     (case makeRequest e sheetName of
        Inl err \<Rightarrow> Inl err
      | Inr None \<Rightarrow> Inr ([], [])
      | Inr (Some []) \<Rightarrow> Inr ([], [])
      | Inr (Some (headers # rows)) \<Rightarrow> Inr (headers, map (rowObject headers) rows))"

text \<open>An own string property of a row, \<open>''\<close> when it is absent: \<open>row[k] || ''\<close>.\<close>

definition rowField :: "row \<Rightarrow> string \<Rightarrow> string" where
  "rowField r k = (case map_of r k of None \<Rightarrow> [] | Some v \<Rightarrow> v)"

text \<open>
  \<open>xs.slice(0, limit)\<close>: a negative \<open>limit\<close> counts from the end of the array.
\<close>

definition slice0 :: "'a list \<Rightarrow> int \<Rightarrow> 'a list" where
  "slice0 xs limit =
     (if limit < 0 then take (nat (int (length xs) + limit)) xs else take (nat limit) xs)"

text \<open>The object \<open>searchSheet\<close> returns, as the list of its properties.\<close>

datatype jsval = JStr string | JNum int | JRows "row list"

type_synonym jsobject = "(string \<times> jsval) list"

definition columnFilter ::
  "string \<Rightarrow> string list \<Rightarrow> row list \<Rightarrow> string \<Rightarrow> string \<Rightarrow> error + row list" where
  "columnFilter sheetName headers rows col searchQuery =
     (case find (\<lambda>h. toLowerCase h = toLowerCase col) headers of
        None \<Rightarrow>
          Inl (Error (''Column '' @ [CHR 0x27] @ col @ [CHR 0x27] @ '' not found in sheet '' @
                      [CHR 0x27] @ sheetName @ [CHR 0x27]))
      | Some h \<Rightarrow>
          if h = ''__proto__'' then Inl TypeError
          else Inr (filter (\<lambda>r. includes_str (toLowerCase (rowField r h)) searchQuery) rows))"

definition allColumnsFilter :: "row list \<Rightarrow> string \<Rightarrow> row list" where
  "allColumnsFilter rows searchQuery =
     filter (\<lambda>r. list_ex (\<lambda>v. includes_str (toLowerCase v) searchQuery) (map snd r)) rows"

definition searchSheet ::
  "env \<Rightarrow> string \<Rightarrow> string \<Rightarrow> string option \<Rightarrow> int \<Rightarrow> error + jsobject" where
  "searchSheet e sheetName query column limit =
     (case readSheet e sheetName of
        Inl err \<Rightarrow> Inl err
      | Inr (headers, rows) \<Rightarrow>
          if rows = [] then Inr [(''results'', JRows []), (''total'', JNum 0)]
          else
            let searchQuery = toLowerCase query;
                filtered =
                  (if truthy column
                   then columnFilter sheetName headers rows (template column) searchQuery
                   else Inr (allColumnsFilter rows searchQuery))
            in (case filtered of
                  Inl err \<Rightarrow> Inl err
                | Inr filteredData \<Rightarrow>
                    Inr [(''results'', JRows (slice0 filteredData limit)),
                         (''total'', JNum (int (length filteredData))),
                         (''query'', JStr query),
                         (''column'', JStr (if truthy column then template column else ''all''))]))"

section \<open>DataIntegrationService\<close>

subsection \<open>State\<close>

text \<open>
  One \<open>Map\<close> holds the results of all four operations, and an operation returns
  whatever it finds under its key. So a cached or returned value is an array of articles,
  of law firms or of settlement records, or the object \<open>searchCondition\<close> builds:
  \<open>{condition, articles, lawFirms, settlements, summary}\<close>, whose \<open>lawFirms\<close> and
  \<open>settlements\<close> are themselves results of \<open>getLawFirms\<close> and \<open>getSettlementData\<close>.
\<close>

datatype cacheData =
    ArticleList "article list"
  | LawFirmList "lawFirm list"
  | SettlementList "settlementRecord list"
  | SearchResult string "article list" cacheData cacheData string

record cacheEntry =
  data :: cacheData
  timestamp :: int

text \<open>
  Requests sent to the providers are recorded in \<open>calls\<close>; the field is there to state
  how many requests an operation makes and is never read by the service.
\<close>

datatype providerCall =
    SheetsRequest string
  | HubSpotSearchDiseases
  | HubSpotFindLawFirms
  | HubSpotGetSettlementData

record service =
  hubspot :: bool
  googleSheets :: bool
  cache :: "string \<rightharpoonup> cacheEntry"
  cacheTimeout :: int
  calls :: "providerCall list"

text \<open>
  The constructor: the Google Sheets connector raises when no API key is configured, and
  the service then keeps \<open>null\<close> in its place; the HubSpot connector is always built.
\<close>

definition newService :: "bool \<Rightarrow> service" where
  "newService googleApiKey =
     \<lparr>hubspot = True, googleSheets = googleApiKey, cache = Map.empty,
      cacheTimeout = 5 * 60 * 1000, calls = []\<rparr>"

subsection \<open>Cache management\<close>

text \<open>\<open>now\<close> is the value of \<open>Date.now()\<close> at the call.\<close>

definition getFromCache :: "service \<Rightarrow> int \<Rightarrow> string \<Rightarrow> cacheData option \<times> service" where
  "getFromCache svc now key =
     (case cache svc key of
        Some cached \<Rightarrow>
          if now - timestamp cached < cacheTimeout svc then (Some (data cached), svc)
          else (None, svc\<lparr>cache := (cache svc)(key := None)\<rparr>)
      | None \<Rightarrow> (None, svc\<lparr>cache := (cache svc)(key := None)\<rparr>))"

definition setCache :: "service \<Rightarrow> int \<Rightarrow> string \<Rightarrow> cacheData \<Rightarrow> service" where
  "setCache svc now key d =
     svc\<lparr>cache := (cache svc)(key \<mapsto> \<lparr>data = d, timestamp = now\<rparr>)\<rparr>"

definition clearCache :: "service \<Rightarrow> service" where
  "clearCache svc = svc\<lparr>cache := Map.empty\<rparr>"

text \<open>The two clock readings of one operation: at the lookup and at the store.\<close>

record clock =
  lookupAt :: int
  storeAt :: int

subsection \<open>Articles\<close>

text \<open>
  \<open>mapSheetRowToArticle\<close> returns \<open>null\<close> for any other sheet name. The argument \<open>i\<close>
  is the position of the row, which selects the random number drawn when the row has
  no \<open>ID\<close>.
\<close>

definition mapSheetRowToArticle :: "env \<Rightarrow> row \<Rightarrow> string \<Rightarrow> nat \<Rightarrow> article option" where
  "mapSheetRowToArticle e r sheetName i =
     (if sheetName = ''Medical Conditions'' then
        Some \<lparr>
          articleId = IdStr (''sheets_medical_'' @ orElse (rowField r ''ID'') (random e sheetName i)),
          title = orElse (rowField r ''Condition Name'') (rowField r ''Name''),
          description = orElse (rowField r ''Description'') (rowField r ''Medical Description''),
          slug = createSlug (orElse (rowField r ''Condition Name'') (rowField r ''Name'')),
          category = ''medical'',
          date = Some (orElse (rowField r ''Last Updated'') (toISOString e)),
          content = \<lparr>
            overview = orElse (rowField r ''Description'') (rowField r ''Medical Description''),
            symptoms = parseList (orElse (rowField r ''Symptoms'') (rowField r ''Common Symptoms'')),
            causes = parseList (orElse (rowField r ''Causes'') (rowField r ''Risk Factors'')),
            treatments = parseList (orElse (rowField r ''Treatments'') (rowField r ''Treatment Options'')),
            legalOptions = parseList (rowField r ''Legal Options''),
            settlements = orElse (rowField r ''Settlements'') (rowField r ''Settlement Range'')\<rparr>,
          articleSource = ''google_sheets''\<rparr>
      else if sheetName = ''Legal Cases'' then
        Some \<lparr>
          articleId = IdStr (''sheets_legal_'' @ orElse (rowField r ''ID'') (random e sheetName i)),
          title = orElse (rowField r ''Case Name'') (rowField r ''Name''),
          description = orElse (rowField r ''Description'') (rowField r ''Case Summary''),
          slug = createSlug (orElse (rowField r ''Case Name'') (rowField r ''Name'')),
          category = ''legal'',
          date = Some (orElse (rowField r ''Date Filed'')
                        (orElse (rowField r ''Last Updated'') (toISOString e))),
          content = \<lparr>
            overview = orElse (rowField r ''Description'') (rowField r ''Case Summary''),
            symptoms = [],
            causes = parseList (rowField r ''Alleged Causes''),
            treatments = [],
            legalOptions = parseList (rowField r ''Legal Options''),
            settlements = orElse (rowField r ''Settlement Amount'') (rowField r ''Settlements'')\<rparr>,
          articleSource = ''google_sheets''\<rparr>
      else if sheetName = ''Manufacturer Cases'' then
        Some \<lparr>
          articleId = IdStr (''sheets_manufacturer_'' @ orElse (rowField r ''ID'') (random e sheetName i)),
          title = orElse (rowField r ''Manufacturer'') (rowField r ''Company'') @ '' - '' @
                  rowField r ''Product'',
          description = orElse (rowField r ''Description'') (rowField r ''Case Summary''),
          slug = createSlug (orElse (rowField r ''Manufacturer'') (rowField r ''Company'') @ ''-'' @
                             rowField r ''Product''),
          category = ''manufacturer'',
          date = Some (orElse (rowField r ''Date Filed'')
                        (orElse (rowField r ''Last Updated'') (toISOString e))),
          content = \<lparr>
            overview = orElse (rowField r ''Description'') (rowField r ''Case Summary''),
            symptoms = parseList (rowField r ''Symptoms''),
            causes = parseList (rowField r ''Alleged Causes''),
            treatments = [],
            legalOptions = parseList (rowField r ''Legal Options''),
            settlements = orElse (rowField r ''Settlement Amount'') (rowField r ''Settlements'')\<rparr>,
          articleSource = ''google_sheets''\<rparr>
      else None)"

definition articleSheets :: "string list" where
  "articleSheets = [''Medical Conditions'', ''Legal Cases'', ''Manufacturer Cases'']"

text \<open>
  Every adapter method of the service returns its records together with the requests it
  sent. A sheet that cannot be read is skipped; a connector that is \<open>null\<close> sends nothing.
\<close>

definition sheetArticles :: "env \<Rightarrow> string \<Rightarrow> article list" where
  "sheetArticles e sheetName =
     (case readSheet e sheetName of
        Inl err \<Rightarrow> []
      | Inr (headers, rows) \<Rightarrow>
          List.map_filter (\<lambda>(i, r). mapSheetRowToArticle e r sheetName i) (enumerate 0 rows))"

definition getArticlesFromGoogleSheets :: "service \<Rightarrow> env \<Rightarrow> article list \<times> providerCall list" where
  "getArticlesFromGoogleSheets svc e =
     (if \<not> googleSheets svc then ([], [])
      else (concat (map (sheetArticles e) articleSheets), map SheetsRequest articleSheets))"

definition diseaseArticle :: "disease \<Rightarrow> article" where
  "diseaseArticle d =
     \<lparr>articleId = IdStr (''hubspot_'' @ diseaseId d),
      title = diseaseName d,
      description = diseaseDescription d,
      slug = createSlug (diseaseName d),
      category = orElse (diseaseCategory d) ''medical'',
      date = lastUpdated d,
      content = \<lparr>
        overview = diseaseDescription d,
        symptoms = diseaseSymptoms d,
        causes = diseaseCauses d,
        treatments = [],
        legalOptions = [],
        settlements = []\<rparr>,
      articleSource = ''hubspot''\<rparr>"

definition getArticlesFromHubSpot :: "service \<Rightarrow> env \<Rightarrow> article list \<times> providerCall list" where
  "getArticlesFromHubSpot svc e =
     (if \<not> hubspot svc then ([], [])
      else ((case searchDiseases e of Inl err \<Rightarrow> [] | Inr diseases \<Rightarrow> map diseaseArticle diseases),
            [HubSpotSearchDiseases]))"

text \<open>
  \<open>Promise.all\<close> hands the two results over in the order of its argument array, the
  spreadsheet's first. Nothing in the \<open>try\<close> block of \<open>getAllArticles\<close> can raise (the two
  adapter methods catch their own errors, and every title is a string), so its \<open>catch\<close>
  branch has no counterpart here.
\<close>

definition getAllArticles :: "service \<Rightarrow> env \<Rightarrow> clock \<Rightarrow> cacheData \<times> service" where
  "getAllArticles svc e clk =
     (let cacheKey = ''all_articles'';
          (cached, svc1) = getFromCache svc (lookupAt clk) cacheKey
      in case cached of
           Some d \<Rightarrow> (d, svc1)
         | None \<Rightarrow>
             let (sheetsArticles, c1) = getArticlesFromGoogleSheets svc1 e;
                 (hubspotArticles, c2) = getArticlesFromHubSpot svc1 e;
                 svc2 = svc1\<lparr>calls := calls svc1 @ c1 @ c2\<rparr>;
                 allArticles = mergeArticles sheetsArticles hubspotArticles
             in if allArticles = [] then
                  let fallbackArticles = getFallbackArticles (toISOString e)
                  in (ArticleList fallbackArticles,
                      setCache svc2 (storeAt clk) cacheKey (ArticleList fallbackArticles))
                else (ArticleList allArticles,
                      setCache svc2 (storeAt clk) cacheKey (ArticleList allArticles)))"

subsection \<open>Law firms\<close>

text \<open>
  \<open>wanted && !v?.toLowerCase().includes(wanted.toLowerCase())\<close> rejects a row; \<open>passes\<close>
  is the negation: no filter is wanted, or the field is present and contains it.
\<close>

definition passes :: "string option \<Rightarrow> string option \<Rightarrow> bool" where
  "passes wanted v =
     (case wanted of
        None \<Rightarrow> True
      | Some w \<Rightarrow>
          if w = [] then True
          else (case v of None \<Rightarrow> False | Some x \<Rightarrow> includes_str (toLowerCase x) (toLowerCase w)))"

definition sheetFirm :: "env \<Rightarrow> row \<Rightarrow> nat \<Rightarrow> lawFirm" where
  "sheetFirm e firm i =
     \<lparr>firmId = ''sheets_firm_'' @ orElse (rowField firm ''ID'') (random e ''Law Firms'' i),
      name = Some (orElse (rowField firm ''Name'') (rowField firm ''Firm Name'')),
      location = orElse (rowField firm ''Location'')
                   (rowField firm ''City'' @ '', '' @ rowField firm ''State''),
      phone = Some (rowField firm ''Phone''),
      website = Some (rowField firm ''Website''),
      specialties = parseList (rowField firm ''Specialties''),
      experience = Some (orElse (rowField firm ''Years Experience'') (rowField firm ''Experience'')),
      successRate = Some (rowField firm ''Success Rate''),
      notableSettlements = parseList (rowField firm ''Notable Settlements''),
      firmSource = ''google_sheets''\<rparr>"

definition getLawFirmsFromGoogleSheets ::
  "service \<Rightarrow> env \<Rightarrow> string option \<Rightarrow> string option \<Rightarrow> lawFirm list \<times> providerCall list" where
  "getLawFirmsFromGoogleSheets svc e specialty loc =
     (if \<not> googleSheets svc then ([], [])
      else ((case readSheet e ''Law Firms'' of
               Inl err \<Rightarrow> []
             | Inr (headers, rows) \<Rightarrow>
                 map (\<lambda>(i, firm). sheetFirm e firm i)
                   (enumerate 0
                      (filter (\<lambda>firm. passes specialty (map_of firm ''Specialties'') \<and>
                                       passes loc (map_of firm ''Location'')) rows))),
            [SheetsRequest ''Law Firms'']))"

definition hubspotLawFirm :: "hubspotFirm \<Rightarrow> lawFirm" where
  "hubspotLawFirm firm =
     \<lparr>firmId = ''hubspot_firm_'' @ hsId firm,
      name = hsName firm,
      location = hsLocation firm,
      phone = hsPhone firm,
      website = hsWebsite firm,
      specialties = hsSpecialties firm,
      experience = hsExperience firm,
      successRate = hsSuccessRate firm,
      notableSettlements = hsNotableSettlements firm,
      firmSource = ''hubspot''\<rparr>"

definition getLawFirmsFromHubSpot ::
  "service \<Rightarrow> env \<Rightarrow> string option \<Rightarrow> string option \<Rightarrow> lawFirm list \<times> providerCall list" where
  "getLawFirmsFromHubSpot svc e specialty loc =
     (if \<not> hubspot svc then ([], [])
      else ((case findLawFirms e (case specialty of None \<Rightarrow> [] | Some s \<Rightarrow> s) loc of
               Inl err \<Rightarrow> []
             | Inr firms \<Rightarrow> map hubspotLawFirm firms),
            [HubSpotFindLawFirms]))"

text \<open>The fallback firms, filtered by the specialty when one is given.\<close>

definition fallbackFirmsFor :: "string option \<Rightarrow> lawFirm list" where
  "fallbackFirmsFor specialty =
     (if truthy specialty
      then filter (\<lambda>firm. list_ex (\<lambda>s. includes_str (toLowerCase s)
                                            (toLowerCase (template specialty)))
                              (specialties firm))
             getFallbackLawFirms
      else getFallbackLawFirms)"

definition lawFirmsKey :: "string option \<Rightarrow> string option \<Rightarrow> string" where
  "lawFirmsKey specialty loc = ''law_firms_'' @ template specialty @ ''_'' @ template loc"

text \<open>
  With string arguments nothing in the \<open>try\<close> block of \<open>getLawFirms\<close> can raise, so its
  \<open>catch\<close> branch has no counterpart here.
\<close>

definition getLawFirms ::
  "service \<Rightarrow> env \<Rightarrow> clock \<Rightarrow> string option \<Rightarrow> string option \<Rightarrow> cacheData \<times> service" where
  "getLawFirms svc e clk specialty loc =
     (let cacheKey = lawFirmsKey specialty loc;
          (cached, svc1) = getFromCache svc (lookupAt clk) cacheKey
      in case cached of
           Some d \<Rightarrow> (d, svc1)
         | None \<Rightarrow>
             let (sheetsFirms, c1) = getLawFirmsFromGoogleSheets svc1 e specialty loc;
                 (hubspotFirms, c2) = getLawFirmsFromHubSpot svc1 e specialty loc;
                 svc2 = svc1\<lparr>calls := calls svc1 @ c1 @ c2\<rparr>;
                 allFirms = sheetsFirms @ hubspotFirms
             in if allFirms = [] then
                  let filteredFirms = fallbackFirmsFor specialty
                  in (LawFirmList filteredFirms,
                      setCache svc2 (storeAt clk) cacheKey (LawFirmList filteredFirms))
                else (LawFirmList allFirms,
                      setCache svc2 (storeAt clk) cacheKey (LawFirmList allFirms)))"

subsection \<open>Settlement data\<close>

definition sheetSettlement :: "row \<Rightarrow> settlementRecord" where
  "sheetSettlement r =
     \<lparr>settlementId = None,
      condition = Some (rowField r ''Condition''),
      state = Some (rowField r ''State''),
      settlementRange = Some (orElse (rowField r ''Settlement Range'') (rowField r ''Settlements'')),
      averageSettlement = Some (rowField r ''Average Settlement''),
      totalCases = Some (rowField r ''Total Cases''),
      year = Some (rowField r ''Year''),
      settlementSource = Some ''google_sheets''\<rparr>"

text \<open>
  \<open>const { data } = await this.googleSheets.searchSheet(...)\<close> reads the property
  \<open>data\<close> of the object \<open>searchSheet\<close> returns. When there is none, \<open>data\<close> is
  \<open>undefined\<close> and \<open>data.filter\<close> raises a TypeError; a string or a number has no
  \<open>filter\<close> either. The \<open>catch\<close> branch turns every error into the empty array.
\<close>

definition getSettlementDataFromGoogleSheets ::
  "service \<Rightarrow> env \<Rightarrow> string \<Rightarrow> string option \<Rightarrow> settlementRecord list \<times> providerCall list" where
  "getSettlementDataFromGoogleSheets svc e cond stateArg =
     (if \<not> googleSheets svc then ([], [])
      else ((case searchSheet e ''Settlements'' cond (Some ''Condition'') 20 of
               Inl err \<Rightarrow> []
             | Inr obj \<Rightarrow>
                 (case map_of obj ''data'' of
                    Some (JRows rows) \<Rightarrow>
                      map sheetSettlement
                        (filter (\<lambda>r. passes stateArg (map_of r ''State'')) rows)
                  | _ \<Rightarrow> [])),
            [SheetsRequest ''Settlements'']))"

text \<open>
  \<open>data.map(item => ({...item, source: 'hubspot'}))\<close> on the connector's result: a plain
  object has no \<open>map\<close>, so the call raises a TypeError.
\<close>

definition mapItems :: "settlementRanges \<Rightarrow> error + settlementRecord list" where
  "mapItems obj = Inl TypeError"

definition getSettlementDataFromHubSpot ::
  "service \<Rightarrow> env \<Rightarrow> string \<Rightarrow> string option \<Rightarrow> settlementRecord list \<times> providerCall list" where
  "getSettlementDataFromHubSpot svc e cond stateArg =
     (if \<not> hubspot svc then ([], [])
      else ((case mapItems (hubspotSettlementData e cond stateArg) of
               Inl err \<Rightarrow> []
             | Inr items \<Rightarrow> items),
            [HubSpotGetSettlementData]))"

definition settlementKey :: "string \<Rightarrow> string option \<Rightarrow> string" where
  "settlementKey cond stateArg = ''settlement_'' @ cond @ ''_'' @ template stateArg"

text \<open>
  When \<open>mergeSettlementData\<close> raises, the \<open>catch\<close> branch returns the defaults without
  storing them.
\<close>

definition getSettlementData ::
  "service \<Rightarrow> env \<Rightarrow> clock \<Rightarrow> string \<Rightarrow> string option \<Rightarrow> cacheData \<times> service" where
  "getSettlementData svc e clk cond stateArg =
     (let cacheKey = settlementKey cond stateArg;
          (cached, svc1) = getFromCache svc (lookupAt clk) cacheKey
      in case cached of
           Some d \<Rightarrow> (d, svc1)
         | None \<Rightarrow>
             let (sheetsData, c1) = getSettlementDataFromGoogleSheets svc1 e cond stateArg;
                 (hubspotData, c2) = getSettlementDataFromHubSpot svc1 e cond stateArg;
                 svc2 = svc1\<lparr>calls := calls svc1 @ c1 @ c2\<rparr>
             in (case mergeSettlementData sheetsData hubspotData of
                   Inl err \<Rightarrow> (SettlementList (getDefaultSettlementData cond), svc2)
                 | Inr mergedData \<Rightarrow>
                     if mergedData = [] then
                       let fallbackData = getDefaultSettlementData cond
                       in (SettlementList fallbackData,
                           setCache svc2 (storeAt clk) cacheKey (SettlementList fallbackData))
                     else (SettlementList mergedData,
                           setCache svc2 (storeAt clk) cacheKey (SettlementList mergedData))))"

subsection \<open>searchCondition\<close>

definition matchesCondition :: "string \<Rightarrow> article \<Rightarrow> bool" where
  "matchesCondition cond a =
     (includes_str (toLowerCase (title a)) (toLowerCase cond) \<or>
      includes_str (toLowerCase (description a)) (toLowerCase cond) \<or>
      includes_str (toLowerCase (overview (content a))) (toLowerCase cond))"

text \<open>
  \<open>allArticles.filter(...)\<close> on what \<open>getAllArticles\<close> returned: on an array whose
  elements are not articles the callback reads \<open>title\<close> of the first element, finds
  \<open>undefined\<close> and raises a TypeError; an object that is no array has no \<open>filter\<close>.
\<close>

definition searchArticles ::
  "service \<Rightarrow> env \<Rightarrow> clock \<Rightarrow> string \<Rightarrow> (error + article list) \<times> service" where
  "searchArticles svc e clk cond =
     (let (allArticles, svc1) = getAllArticles svc e clk
      in ((case allArticles of
             ArticleList xs \<Rightarrow> Inr (filter (matchesCondition cond) xs)
           | LawFirmList xs \<Rightarrow> if xs = [] then Inr [] else Inl TypeError
           | SettlementList xs \<Rightarrow> if xs = [] then Inr [] else Inl TypeError
           | SearchResult c a f s m \<Rightarrow> Inl TypeError),
          svc1))"

text \<open>
  \<open>settlements[0]\<close> and its \<open>settlementRange\<close>: \<open>None\<close> when there is no first element,
  \<open>Some None\<close> when the first element has no such field.
\<close>

definition firstSettlementRange :: "cacheData \<Rightarrow> string option option" where
  "firstSettlementRange d =
     (case d of
        SettlementList xs \<Rightarrow> (case xs of [] \<Rightarrow> None | x # _ \<Rightarrow> Some (settlementRange x))
      | ArticleList xs \<Rightarrow> (case xs of [] \<Rightarrow> None | x # _ \<Rightarrow> Some None)
      | LawFirmList xs \<Rightarrow> (case xs of [] \<Rightarrow> None | x # _ \<Rightarrow> Some None)
      | SearchResult c a f s m \<Rightarrow> None)"

definition generateSummary :: "string \<Rightarrow> article list \<Rightarrow> cacheData \<Rightarrow> string" where
  "generateSummary cond arts setts =
     ''Information about '' @ cond @
     (case arts of [] \<Rightarrow> [] | a # _ \<Rightarrow> ''. '' @ take 200 (overview (content a)) @ ''...'') @
     (case firstSettlementRange setts of
        None \<Rightarrow> []
      | Some r \<Rightarrow> '' Typical settlements range from '' @ templateField r @ ''.'')"

definition searchKey :: "string \<Rightarrow> string" where
  "searchKey cond = ''search_'' @ cond"

text \<open>
  The three queries are started together and touch three different cache keys; they are
  composed here one after the other, each with its own clock readings. When
  \<open>searchArticles\<close> raises, the \<open>catch\<close> branch returns the object with empty arrays and
  stores nothing.
\<close>

definition searchCondition ::
  "service \<Rightarrow> env \<Rightarrow> clock \<Rightarrow> clock \<Rightarrow> clock \<Rightarrow> clock \<Rightarrow> string \<Rightarrow> cacheData \<times> service" where
  "searchCondition svc e clk clkA clkF clkS cond =
     (let cacheKey = searchKey cond;
          (cached, svc1) = getFromCache svc (lookupAt clk) cacheKey
      in case cached of
           Some d \<Rightarrow> (d, svc1)
         | None \<Rightarrow>
             let (arts, svc2) = searchArticles svc1 e clkA cond;
                 (firms, svc3) = getLawFirms svc2 e clkF (Some cond) None;
                 (setts, svc4) = getSettlementData svc3 e clkS cond None
             in (case arts of
                   Inl err \<Rightarrow>
                     (SearchResult cond [] (LawFirmList []) (SettlementList [])
                        (''Information about '' @ cond @ '' is currently being updated.''),
                      svc4)
                 | Inr found \<Rightarrow>
                     let result = SearchResult cond found firms setts
                                    (generateSummary cond found setts)
                     in (result, setCache svc4 (storeAt clk) cacheKey result)))"

section \<open>Specification-level notions\<close>

text \<open>
  The words of a title: split at every character outside \<open>[a-z0-9]\<close> and drop the empty
  pieces. A slug is meant to be these words joined by single hyphens.
\<close>

definition alnumWords :: "string \<Rightarrow> string list" where
  "alnumWords s = filter (\<lambda>w. w \<noteq> []) (splitOn (\<lambda>c. \<not> alnum c) s)"

fun joinHyphen :: "string list \<Rightarrow> string" where
  "joinHyphen [] = []"
| "joinHyphen [w] = w"
| "joinHyphen (w # v # ws) = w @ CHR ''-'' # joinHyphen (v # ws)"

text \<open>The hyphen \<open>replaceRuns\<close> leaves before the first and after the last word.\<close>

definition lead :: "string \<Rightarrow> string" where
  "lead s = (if s \<noteq> [] \<and> \<not> alnum (hd s) then ''-'' else [])"

definition trail :: "string \<Rightarrow> string" where
  "trail s = (if s \<noteq> [] \<and> \<not> alnum (last s) \<and> alnumWords s \<noteq> [] then ''-'' else [])"

text \<open>A cache entry is fresh at \<open>now\<close> when it is younger than the timeout.\<close>

definition fresh :: "service \<Rightarrow> int \<Rightarrow> string \<Rightarrow> bool" where
  "fresh svc now key =
     (case cache svc key of None \<Rightarrow> False | Some c \<Rightarrow> now - timestamp c < cacheTimeout svc)"

text \<open>An id is a string with the given prefix.\<close>

definition idHasPrefix :: "string \<Rightarrow> idval \<Rightarrow> bool" where
  "idHasPrefix p i = (case i of IdStr s \<Rightarrow> prefix p s | IdNum n \<Rightarrow> False)"

text \<open>The normalized title by which \<open>mergeArticles\<close> recognises duplicates.\<close>

definition sameTitle :: "string \<Rightarrow> article \<Rightarrow> bool" where
  "sameTitle k = (\<lambda>a. toLowerCase (title a) = k)"




text \<open>
  The group of a settlement record, as a pair: its condition and its state, where an
  absent or empty state counts as \<open>all\<close>. A record is complete when its
  \<open>settlementRange\<close> is not empty. The best record of a group is its first complete
  record, or its first record when none is complete.
\<close>

definition stateOrAll :: "settlementRecord \<Rightarrow> string" where
  "stateOrAll x = (case state x of None \<Rightarrow> ''all'' | Some s \<Rightarrow> if s = [] then ''all'' else s)"

definition sameGroup :: "settlementRecord \<Rightarrow> settlementRecord \<Rightarrow> bool" where
  "sameGroup a = (\<lambda>x. condition x = condition a \<and> stateOrAll x = stateOrAll a)"

definition complete :: "settlementRecord \<Rightarrow> bool" where
  "complete = (\<lambda>x. truthy (settlementRange x))"

definition bestOf :: "settlementRecord list \<Rightarrow> settlementRecord" where
  "bestOf g = (case find complete g of Some x \<Rightarrow> x | None \<Rightarrow> hd g)"

section \<open>Example inputs\<close>

text \<open>A service whose only cache entry was stored at time 0.\<close>

definition staleService :: service where
  "staleService = setCache (newService True) 0 ''all_articles'' (ArticleList [])"

text \<open>An environment in which every request fails.\<close>

definition failingEnv :: env where
  "failingEnv =
     \<lparr>makeRequest = (\<lambda>sheetName. Inl (Error ''Google Sheets request failed: timeout'')),
      searchDiseases = Inl (Error ''HubSpot API error: Unauthorized''),
      findLawFirms = (\<lambda>specialty loc. Inl (Error ''HubSpot API error: Unauthorized'')),
      hubspotSettlementData = (\<lambda>cond stateArg. \<lparr>rangeMin = Some 100000, rangeMax = Some 500000\<rparr>),
      random = (\<lambda>sheetName i. ''0.5''),
      toISOString = ''2026-01-01T00:00:00.000Z''\<rparr>"

text \<open>
  An environment with data: the spreadsheet has one medical condition, two law firms and
  three settlement rows; HubSpot has two pages, one of which repeats the spreadsheet's
  title in lower case, and one law firm.
\<close>

definition sampleValues :: "string \<Rightarrow> string list list option" where
  "sampleValues sheetName =
     (if sheetName = ''Medical Conditions'' then
        Some [[''ID'', ''Condition Name'', ''Description''],
              [''7'', ''Mesothelioma Guide'', ''From the sheet'']]
      else if sheetName = ''Law Firms'' then
        Some [[''ID'', ''Name'', ''Specialties'', ''Location''],
              [''1'', ''Smith Law'', ''Mesothelioma; Asbestos'', ''Austin, TX''],
              ['''', ''Jones Law'', ''Roundup'', ''Miami, FL'']]
      else if sheetName = ''Settlements'' then
        Some [[''Condition'', ''State'', ''Settlement Range''],
              [''Mesothelioma'', ''California'', ''$1M to $2M''],
              [''Silicosis'', ''Texas'', ''$50K''],
              [''Peritoneal mesothelioma'', ''Texas'', ''$900K'']]
      else None)"

definition sampleEnv :: env where
  "sampleEnv =
     \<lparr>makeRequest = (\<lambda>sheetName. Inr (sampleValues sheetName)),
      searchDiseases =
        Inr [\<lparr>diseaseId = ''42'', diseaseName = ''mesothelioma guide'',
              diseaseCategory = ''Cancer'', diseaseDescription = ''From HubSpot'',
              lastUpdated = None, diseaseSymptoms = [], diseaseCauses = []\<rparr>,
             \<lparr>diseaseId = ''43'', diseaseName = ''Roundup Lawsuit'',
              diseaseCategory = ''Other'', diseaseDescription = ''Weedkiller'',
              lastUpdated = None, diseaseSymptoms = [], diseaseCauses = []\<rparr>],
      findLawFirms =
        (\<lambda>specialty loc.
           Inr [\<lparr>hsId = ''9001'', hsName = Some ''Acme Legal'', hsLocation = ''Reno, NV'',
                 hsPhone = None, hsWebsite = None, hsSpecialties = [''Mesothelioma''],
                 hsExperience = None, hsSuccessRate = None, hsNotableSettlements = []\<rparr>]),
      hubspotSettlementData = (\<lambda>cond stateArg. \<lparr>rangeMin = Some 1200000, rangeMax = Some 2400000\<rparr>),
      random = (\<lambda>sheetName i. ''0.25''),
      toISOString = ''2026-01-01T00:00:00.000Z''\<rparr>"

definition clk0 :: clock where
  "clk0 = \<lparr>lookupAt = 1000, storeAt = 1200\<rparr>"

definition clk1 :: clock where
  "clk1 = \<lparr>lookupAt = 301199, storeAt = 301500\<rparr>"

text \<open>
  The service after a first \<open>getAllArticles\<close> at \<open>clk0\<close> in the failing environment: the
  fallback articles are cached, and four requests were sent.
\<close>

definition afterFirstCall :: service where
  "afterFirstCall =
     \<lparr>hubspot = True, googleSheets = True,
      cache = [''all_articles'' \<mapsto>
                \<lparr>data = ArticleList (getFallbackArticles ''2026-01-01T00:00:00.000Z''),
                 timestamp = 1200\<rparr>],
      cacheTimeout = 300000,
      calls = [SheetsRequest ''Medical Conditions'', SheetsRequest ''Legal Cases'',
               SheetsRequest ''Manufacturer Cases'', HubSpotSearchDiseases]\<rparr>"

text \<open>
  The service after a first \<open>getLawFirms(null, null)\<close> at \<open>clk0\<close> in the failing
  environment.
\<close>

definition afterFirmsCall :: service where
  "afterFirmsCall =
     \<lparr>hubspot = True, googleSheets = True,
      cache = [''law_firms_null_null'' \<mapsto>
                \<lparr>data = LawFirmList getFallbackLawFirms, timestamp = 1200\<rparr>],
      cacheTimeout = 300000,
      calls = [SheetsRequest ''Law Firms'', HubSpotFindLawFirms]\<rparr>"

text \<open>
  The service after a first \<open>getSettlementData("Mesothelioma", null)\<close> at \<open>clk0\<close> in the
  failing environment.
\<close>

definition afterSettlementCall :: service where
  "afterSettlementCall =
     \<lparr>hubspot = True, googleSheets = True,
      cache = [''settlement_Mesothelioma_null'' \<mapsto>
                \<lparr>data = SettlementList (getDefaultSettlementData ''Mesothelioma''),
                 timestamp = 1200\<rparr>],
      cacheTimeout = 300000,
      calls = [SheetsRequest ''Settlements'', HubSpotGetSettlementData]\<rparr>"

text \<open>The articles that the adapters build in the example environment.\<close>

definition sampleSheetArticle :: article where
  "sampleSheetArticle =
     \<lparr>articleId = IdStr ''sheets_medical_7'',
      title = ''Mesothelioma Guide'',
      description = ''From the sheet'',
      slug = ''mesothelioma-guide'',
      category = ''medical'',
      date = Some ''2026-01-01T00:00:00.000Z'',
      content = \<lparr>overview = ''From the sheet'', symptoms = [], causes = [], treatments = [],
                  legalOptions = [], settlements = []\<rparr>,
      articleSource = ''google_sheets''\<rparr>"

definition sampleHubSpotDuplicate :: article where
  "sampleHubSpotDuplicate =
     \<lparr>articleId = IdStr ''hubspot_42'',
      title = ''mesothelioma guide'',
      description = ''From HubSpot'',
      slug = ''mesothelioma-guide'',
      category = ''Cancer'',
      date = None,
      content = \<lparr>overview = ''From HubSpot'', symptoms = [], causes = [], treatments = [],
                  legalOptions = [], settlements = []\<rparr>,
      articleSource = ''hubspot''\<rparr>"

definition sampleHubSpotRoundup :: article where
  "sampleHubSpotRoundup =
     \<lparr>articleId = IdStr ''hubspot_43'',
      title = ''Roundup Lawsuit'',
      description = ''Weedkiller'',
      slug = ''roundup-lawsuit'',
      category = ''Other'',
      date = None,
      content = \<lparr>overview = ''Weedkiller'', symptoms = [], causes = [], treatments = [],
                  legalOptions = [], settlements = []\<rparr>,
      articleSource = ''hubspot''\<rparr>"




section \<open>Properties of createSlug\<close>

lemma splitOn_not_Nil [simp]: "splitOn p s \<noteq> []"
  by (induction s) (auto split: list.splits)

lemma alnumWords_Nil [simp]: "alnumWords [] = []"
  by (simp add: alnumWords_def)

lemma alnumWords_skip [simp]: "\<not> alnum c \<Longrightarrow> alnumWords (c # cs) = alnumWords cs"
  by (simp add: alnumWords_def)

lemma alnumWords_dropWhile [simp]:
  "alnumWords (dropWhile (\<lambda>d. \<not> alnum d) cs) = alnumWords cs"
  by (induction cs) auto

lemma alnumWords_single [simp]: "alnum c \<Longrightarrow> alnumWords [c] = [[c]]"
  by (simp add: alnumWords_def)

lemma alnumWords_Cons_sep:
  "alnum c \<Longrightarrow> \<not> alnum d \<Longrightarrow> alnumWords (c # d # cs) = [c] # alnumWords cs"
  by (simp add: alnumWords_def)

lemma alnumWords_Cons_run:
  "alnum c \<Longrightarrow> alnum d \<Longrightarrow>
     alnumWords (c # d # cs) = (c # hd (alnumWords (d # cs))) # tl (alnumWords (d # cs))"
  by (auto simp add: alnumWords_def split: list.splits)

lemma alnumWords_run_not_Nil: "alnum d \<Longrightarrow> alnumWords (d # cs) \<noteq> []"
  by (auto simp add: alnumWords_def split: list.splits)

lemma alnumWords_empty_iff: "alnumWords s = [] \<longleftrightarrow> (\<forall>c \<in> set s. \<not> alnum c)"
proof (induction s)
  case Nil
  show ?case by simp
next
  case (Cons c cs)
  show ?case
  proof (cases "alnum c")
    case True
    then show ?thesis using alnumWords_run_not_Nil [of c cs] by auto
  next
    case False
    then show ?thesis using Cons by simp
  qed
qed

lemma joinHyphen_Cons_Cons: "joinHyphen ((c # w) # ws) = c # joinHyphen (w # ws)"
  by (cases ws) auto

lemma last_dropWhile: "dropWhile P xs \<noteq> [] \<Longrightarrow> last (dropWhile P xs) = last xs"
  by (induction xs) (auto split: if_splits)

lemma replaceRuns_shape:
  "replaceRuns s = lead s @ joinHyphen (alnumWords s) @ trail s"
proof (induction s rule: replaceRuns.induct)
  case 1
  show ?case by (simp add: lead_def trail_def)
next
  case (2 c cs)
  show ?case
  proof (cases "alnum c")
    case False
    let ?r = "dropWhile (\<lambda>d. \<not> alnum d) cs"
    have ih: "replaceRuns ?r = lead ?r @ joinHyphen (alnumWords ?r) @ trail ?r"
      using 2(2) False by simp
    have l: "lead ?r = []"
      using hd_dropWhile [of "\<lambda>d. \<not> alnum d" cs] by (auto simp: lead_def)
    have t: "trail ?r = trail (c # cs)"
    proof (cases "?r = []")
      case True
      then have "\<forall>x \<in> set cs. \<not> alnum x" by simp
      then have "alnumWords cs = []" by (simp add: alnumWords_empty_iff)
      then show ?thesis using True False by (simp add: trail_def)
    next
      case ne: False
      then have "cs \<noteq> []" by auto
      then show ?thesis using ne False last_dropWhile [OF ne] by (simp add: trail_def)
    qed
    show ?thesis using False ih l t by (simp add: lead_def)
  next
    case True
    have ih: "replaceRuns cs = lead cs @ joinHyphen (alnumWords cs) @ trail cs"
      using 2(1) True by simp
    show ?thesis
    proof (cases cs)
      case Nil
      then show ?thesis using True by (simp add: lead_def trail_def)
    next
      case (Cons d ds)
      show ?thesis
      proof (cases "alnum d")
        case al: True
        obtain w ws where ws: "alnumWords (d # ds) = w # ws"
          using alnumWords_run_not_Nil [OF al, of ds] by (cases "alnumWords (d # ds)") auto
        have "alnumWords (c # d # ds) = (c # w) # ws"
          using alnumWords_Cons_run [OF True al, of ds] ws by simp
        then show ?thesis using True al ih Cons ws
          by (simp add: lead_def trail_def joinHyphen_Cons_Cons)
      next
        case nal: False
        have w: "alnumWords (c # d # ds) = [c] # alnumWords ds"
          using alnumWords_Cons_sep [OF True nal] .
        show ?thesis
        proof (cases "alnumWords ds")
          case Nil
          then have "\<forall>x \<in> set ds. \<not> alnum x" by (simp add: alnumWords_empty_iff)
          then have "\<not> alnum (last (d # ds))" using nal by (cases ds rule: rev_cases) auto
          then show ?thesis using True nal ih Cons w Nil
            by (simp add: lead_def trail_def)
        next
          case (Cons v vs)
          then show ?thesis using True nal ih \<open>cs = d # ds\<close> w
            by (simp add: lead_def trail_def)
        qed
      qed
    qed
  qed
qed


lemma splitOn_pieces_all: "\<forall>w \<in> set (splitOn p s). \<forall>c \<in> set w. \<not> p c"
proof (induction s)
  case Nil
  show ?case by simp
next
  case (Cons a s)
  obtain v vs where v: "splitOn p s = v # vs"
    by (cases "splitOn p s") auto
  show ?case using Cons v by (cases "p a") auto
qed

lemma splitOn_pieces: "w \<in> set (splitOn p s) \<Longrightarrow> c \<in> set w \<Longrightarrow> \<not> p c"
  using splitOn_pieces_all by blast

lemma alnumWords_word:
  "w \<in> set (alnumWords s) \<Longrightarrow> w \<noteq> [] \<and> (\<forall>c \<in> set w. alnum c)"
  using splitOn_pieces [of w "\<lambda>c. \<not> alnum c" s] by (auto simp: alnumWords_def)

lemma alnum_not_hyphen: "alnum c \<Longrightarrow> c \<noteq> CHR ''-''"
  by (auto simp: alnum_def)

lemma joinHyphen_ends:
  "ws \<noteq> [] \<Longrightarrow> \<forall>w \<in> set ws. w \<noteq> [] \<and> (\<forall>c \<in> set w. alnum c) \<Longrightarrow>
     joinHyphen ws \<noteq> [] \<and> alnum (hd (joinHyphen ws)) \<and> alnum (last (joinHyphen ws))"
  by (induction ws rule: joinHyphen.induct) auto

lemma joinHyphen_chars:
  "\<forall>w \<in> set ws. \<forall>c \<in> set w. alnum c \<Longrightarrow>
     \<forall>c \<in> set (joinHyphen ws). alnum c \<or> c = CHR ''-''"
  by (induction ws rule: joinHyphen.induct) auto

lemma joinHyphen_Nil_iff:
  "\<forall>w \<in> set ws. w \<noteq> [] \<Longrightarrow> joinHyphen ws = [] \<longleftrightarrow> ws = []"
  by (induction ws rule: joinHyphen.induct) auto

lemma trimHyphens_shape:
  assumes "j = [] \<or> (hd j \<noteq> CHR ''-'' \<and> last j \<noteq> CHR ''-'')"
    and "l = [] \<or> l = ''-''" and "t = [] \<or> (t = ''-'' \<and> j \<noteq> [])"
  shows "trimHyphens (l @ j @ t) = j"
  using assms by (cases j) (auto simp: trimHyphens_def)

lemma createSlug_words: "createSlug t = joinHyphen (alnumWords (toLowerCase t))"
proof -
  let ?s = "toLowerCase t"
  let ?j = "joinHyphen (alnumWords ?s)"
  have w: "\<forall>w \<in> set (alnumWords ?s). w \<noteq> [] \<and> (\<forall>c \<in> set w. alnum c)"
    using alnumWords_word by blast
  have j: "?j = [] \<or> (hd ?j \<noteq> CHR ''-'' \<and> last ?j \<noteq> CHR ''-'')"
  proof (cases "alnumWords ?s = []")
    case True
    then show ?thesis by simp
  next
    case False
    then show ?thesis using joinHyphen_ends [OF False w] alnum_not_hyphen by blast
  qed
  have l: "lead ?s = [] \<or> lead ?s = ''-''" by (simp add: lead_def)
  have t: "trail ?s = [] \<or> (trail ?s = ''-'' \<and> ?j \<noteq> [])"
    using w joinHyphen_Nil_iff [of "alnumWords ?s"] by (auto simp: trail_def)
  show ?thesis
    unfolding createSlug_def replaceRuns_shape [of ?s]
    using trimHyphens_shape [OF j l t] .
qed

lemma createSlug_example:
  "createSlug ''3M Combat Arms Earplugs!'' = ''3m-combat-arms-earplugs''"
  by (simp add: createSlug_def toLowerCase_def toLowerCaseChar_def char_of_def bit_Suc_0_iff
      alnum_def trimHyphens_def)

lemma createSlug_chars: "c \<in> set (createSlug t) \<Longrightarrow> alnum c \<or> c = CHR ''-''"
  using joinHyphen_chars [of "alnumWords (toLowerCase t)"] alnumWords_word
  unfolding createSlug_words by blast

lemma createSlug_ends:
  "createSlug t \<noteq> [] \<Longrightarrow> alnum (hd (createSlug t)) \<and> alnum (last (createSlug t))"
  using joinHyphen_ends [of "alnumWords (toLowerCase t)"] alnumWords_word
  unfolding createSlug_words by (metis joinHyphen.simps(1))

lemma lower_example_1: "toLowerCase ''Mesothelioma Guide!'' = ''mesothelioma guide!''"
  by (simp add: toLowerCase_def toLowerCaseChar_def char_of_def bit_Suc_0_iff)

lemma lower_example_2: "toLowerCase ''mesothelioma   GUIDE'' = ''mesothelioma   guide''"
  by (simp add: toLowerCase_def toLowerCaseChar_def char_of_def bit_Suc_0_iff)

lemma words_example_1: "alnumWords ''mesothelioma guide!'' = [''mesothelioma'', ''guide'']"
  by (simp add: alnumWords_def alnum_def)

lemma words_example_2: "alnumWords ''mesothelioma   guide'' = [''mesothelioma'', ''guide'']"
  by (simp add: alnumWords_def alnum_def)

text \<open>
  Claim C6. \<open>createSlug\<close> is a function of its input alone. It lowercases the input,
  replaces every maximal run of characters outside \<open>[a-z0-9]\<close> by one hyphen and removes
  a hyphen at either end: the slug is the words of the lowercased input joined by single
  hyphens. It consists of \<open>[a-z0-9]\<close> and hyphens only and neither starts nor ends with a
  hyphen; \<open>createSlug("3M Combat Arms Earplugs!")\<close> is \<open>"3m-combat-arms-earplugs"\<close>; and
  two titles with the same words after lowercasing have the same slug.
\<close>

theorem createSlug_normalises:
  "createSlug ''3M Combat Arms Earplugs!'' = ''3m-combat-arms-earplugs'' \<and>
   createSlug t = joinHyphen (alnumWords (toLowerCase t)) \<and>
   (\<forall>c \<in> set (createSlug t). alnum c \<or> c = CHR ''-'') \<and>
   (createSlug t \<noteq> [] \<longrightarrow> hd (createSlug t) \<noteq> CHR ''-'' \<and> last (createSlug t) \<noteq> CHR ''-'') \<and>
   (alnumWords (toLowerCase t) = alnumWords (toLowerCase t') \<longrightarrow> createSlug t = createSlug t')"
  using createSlug_example createSlug_words [of t] createSlug_words [of t']
    createSlug_chars [of _ t] createSlug_ends [of t] alnum_not_hyphen
  by metis

text \<open>
  Witness for C6: two titles that differ in case, spacing and punctuation have the same
  words and the same slug, which has no hyphen at either end.
\<close>

theorem createSlug_normalises_witness:
  "alnumWords (toLowerCase ''Mesothelioma Guide!'') = alnumWords (toLowerCase ''mesothelioma   GUIDE'') \<and>
   createSlug ''Mesothelioma Guide!'' = ''mesothelioma-guide'' \<and>
   createSlug ''mesothelioma   GUIDE'' = ''mesothelioma-guide'' \<and>
   hd (createSlug ''Mesothelioma Guide!'') \<noteq> CHR ''-'' \<and>
   last (createSlug ''Mesothelioma Guide!'') \<noteq> CHR ''-''"
  using createSlug_normalises [of "''Mesothelioma Guide!''" "''mesothelioma   GUIDE''"]
  by (auto simp add: lower_example_1 lower_example_2 words_example_1 words_example_2)

section \<open>The cache contract\<close>

text \<open>
  Claim C4, as the code has it. \<open>getFromCache\<close> returns the stored data exactly when the
  key has an entry with \<open>now - timestamp < cacheTimeout\<close>, and signals a miss otherwise.
  A hit leaves the service as it is. A miss deletes the entry of that key (an expired
  entry is evicted by the read); the entries of all other keys stay as they are.
\<close>

theorem getFromCache_contract:
  "(fst (getFromCache svc now key) = Some d \<longleftrightarrow>
      (\<exists>c. cache svc key = Some c \<and> data c = d \<and> now - timestamp c < cacheTimeout svc)) \<and>
   (fst (getFromCache svc now key) = None \<longleftrightarrow> \<not> fresh svc now key) \<and>
   (fresh svc now key \<longrightarrow> snd (getFromCache svc now key) = svc) \<and>
   (\<not> fresh svc now key \<longrightarrow>
      snd (getFromCache svc now key) = svc\<lparr>cache := (cache svc)(key := None)\<rparr>) \<and>
   (\<forall>k. k \<noteq> key \<longrightarrow> cache (snd (getFromCache svc now key)) k = cache svc k)"
  by (auto simp: getFromCache_def fresh_def split: option.splits)

text \<open>
  Witness for C4: an entry stored at time 0 is returned at 299999 ms and the service is
  unchanged; at 300000 ms the read misses and the entry is gone; a read of another key
  leaves it alone.
\<close>

theorem getFromCache_contract_witness:
  "fresh staleService 299999 ''all_articles'' \<and>
   getFromCache staleService 299999 ''all_articles'' = (Some (ArticleList []), staleService) \<and>
   \<not> fresh staleService 300000 ''all_articles'' \<and>
   cache (snd (getFromCache staleService 300000 ''all_articles'')) ''all_articles'' = None \<and>
   cache (snd (getFromCache staleService 300000 ''law_firms_null_null'')) ''all_articles''
     = cache staleService ''all_articles''"
  using getFromCache_contract [of staleService 299999 "''all_articles''" "ArticleList []"]
    getFromCache_contract [of staleService 300000 "''all_articles''" "ArticleList []"]
    getFromCache_contract [of staleService 300000 "''law_firms_null_null''" "ArticleList []"]
  by (simp add: staleService_def setCache_def newService_def fresh_def prod_eq_iff)

text \<open>
  Counterexample to C4 as stated: the service holds an entry stored at time 0; a read at
  300000 ms, when the entry has expired, returns a miss and removes the entry from the
  store.
\<close>

theorem getFromCache_evicts_counterexample:
  "cache staleService ''all_articles'' = Some \<lparr>data = ArticleList [], timestamp = 0\<rparr> \<and>
   cacheTimeout staleService = 300000 \<and>
   getFromCache staleService 300000 ''all_articles'' =
     (None, staleService\<lparr>cache := Map.empty\<rparr>)"
  by (simp add: staleService_def setCache_def newService_def getFromCache_def)

section \<open>Cache hits and misses of the facade\<close>

lemma getFromCache_hit:
  "cache svc key = Some c \<Longrightarrow> now - timestamp c < cacheTimeout svc \<Longrightarrow>
     getFromCache svc now key = (Some (data c), svc)"
  by (simp add: getFromCache_def)

lemma getFromCache_miss:
  "\<not> fresh svc now key \<Longrightarrow>
     getFromCache svc now key = (None, svc\<lparr>cache := (cache svc)(key := None)\<rparr>)"
  by (auto simp: getFromCache_def fresh_def split: option.splits)

lemma getAllArticles_hit:
  "cache svc ''all_articles'' = Some c \<Longrightarrow> lookupAt clk - timestamp c < cacheTimeout svc \<Longrightarrow>
     getAllArticles svc e clk = (data c, svc)"
  by (simp add: getAllArticles_def getFromCache_hit)

lemma adapters_frame [simp]:
  "getArticlesFromGoogleSheets (svc\<lparr>cache := c\<rparr>) e = getArticlesFromGoogleSheets svc e"
  "getArticlesFromHubSpot (svc\<lparr>cache := c\<rparr>) e = getArticlesFromHubSpot svc e"
  "getLawFirmsFromGoogleSheets (svc\<lparr>cache := c\<rparr>) e sp loc = getLawFirmsFromGoogleSheets svc e sp loc"
  "getLawFirmsFromHubSpot (svc\<lparr>cache := c\<rparr>) e sp loc = getLawFirmsFromHubSpot svc e sp loc"
  by (simp_all add: getArticlesFromGoogleSheets_def getArticlesFromHubSpot_def
      getLawFirmsFromGoogleSheets_def getLawFirmsFromHubSpot_def)

lemma getAllArticles_miss:
  "\<not> fresh svc (lookupAt clk) ''all_articles'' \<Longrightarrow>
   getAllArticles svc e clk =
     (let r = ArticleList
                (let m = mergeArticles (fst (getArticlesFromGoogleSheets svc e))
                           (fst (getArticlesFromHubSpot svc e))
                 in if m = [] then getFallbackArticles (toISOString e) else m)
      in (r, svc\<lparr>cache := (cache svc)(''all_articles'' \<mapsto> \<lparr>data = r, timestamp = storeAt clk\<rparr>),
                calls := calls svc @ snd (getArticlesFromGoogleSheets svc e) @
                           snd (getArticlesFromHubSpot svc e)\<rparr>))"
  by (simp add: getAllArticles_def getFromCache_miss setCache_def Let_def split: prod.splits)

lemma getLawFirms_hit:
  "cache svc (lawFirmsKey sp loc) = Some c \<Longrightarrow> lookupAt clk - timestamp c < cacheTimeout svc \<Longrightarrow>
     getLawFirms svc e clk sp loc = (data c, svc)"
  by (simp add: getLawFirms_def getFromCache_hit)

lemma getLawFirms_miss:
  "\<not> fresh svc (lookupAt clk) (lawFirmsKey sp loc) \<Longrightarrow>
   getLawFirms svc e clk sp loc =
     (let r = LawFirmList
                (let m = fst (getLawFirmsFromGoogleSheets svc e sp loc) @
                         fst (getLawFirmsFromHubSpot svc e sp loc)
                 in if m = [] then fallbackFirmsFor sp else m)
      in (r, svc\<lparr>cache := (cache svc)(lawFirmsKey sp loc \<mapsto> \<lparr>data = r, timestamp = storeAt clk\<rparr>),
                calls := calls svc @ snd (getLawFirmsFromGoogleSheets svc e sp loc) @
                           snd (getLawFirmsFromHubSpot svc e sp loc)\<rparr>))"
  by (simp add: getLawFirms_def getFromCache_miss setCache_def Let_def split: prod.splits)

lemma getAllArticles_miss_stores:
  "\<not> fresh svc (lookupAt clk) ''all_articles'' \<Longrightarrow> getAllArticles svc e clk = (r, svc1) \<Longrightarrow>
     cache svc1 ''all_articles'' = Some \<lparr>data = r, timestamp = storeAt clk\<rparr> \<and>
     cacheTimeout svc1 = cacheTimeout svc"
  by (auto simp: getAllArticles_def getFromCache_miss setCache_def Let_def
      split: prod.splits if_splits)

lemma searchSheet_no_data: "searchSheet e n q c l = Inr obj \<Longrightarrow> map_of obj ''data'' = None"
  by (auto simp: searchSheet_def Let_def split: sum.splits prod.splits if_splits)

lemma searchSheet_props:
  "searchSheet e n q c l = Inr obj \<Longrightarrow> map_of obj ''results'' \<noteq> None \<and> map_of obj ''total'' \<noteq> None"
  by (auto simp: searchSheet_def Let_def split: sum.splits prod.splits if_splits)

lemma sheets_settlements_Nil:
  "fst (getSettlementDataFromGoogleSheets svc e cond stateArg) = []"
  using searchSheet_no_data [of e "''Settlements''" cond "Some ''Condition''" 20]
  by (auto simp: getSettlementDataFromGoogleSheets_def split: sum.splits)

lemma hubspot_settlements_Nil:
  "fst (getSettlementDataFromHubSpot svc e cond stateArg) = []"
  by (simp add: getSettlementDataFromHubSpot_def mapItems_def)

lemma mergeSettlementData_Nil: "mergeSettlementData [] [] = Inr []"
  by (simp add: mergeSettlementData_def)

lemma getSettlementData_hit:
  "cache svc (settlementKey cond stateArg) = Some c \<Longrightarrow>
   lookupAt clk - timestamp c < cacheTimeout svc \<Longrightarrow>
     getSettlementData svc e clk cond stateArg = (data c, svc)"
  by (simp add: getSettlementData_def getFromCache_hit)

lemma settlement_adapters_frame [simp]:
  "getSettlementDataFromGoogleSheets (svc\<lparr>cache := c\<rparr>) e cond stateArg =
     getSettlementDataFromGoogleSheets svc e cond stateArg"
  "getSettlementDataFromHubSpot (svc\<lparr>cache := c\<rparr>) e cond stateArg =
     getSettlementDataFromHubSpot svc e cond stateArg"
  by (simp_all add: getSettlementDataFromGoogleSheets_def getSettlementDataFromHubSpot_def)

lemma getSettlementData_miss_eq:
  "\<not> fresh svc (lookupAt clk) (settlementKey cond stateArg) \<Longrightarrow>
   getSettlementData svc e clk cond stateArg =
     (SettlementList (getDefaultSettlementData cond),
      svc\<lparr>cache := (cache svc)(settlementKey cond stateArg \<mapsto>
                \<lparr>data = SettlementList (getDefaultSettlementData cond), timestamp = storeAt clk\<rparr>),
          calls := calls svc @ snd (getSettlementDataFromGoogleSheets svc e cond stateArg) @
                     snd (getSettlementDataFromHubSpot svc e cond stateArg)\<rparr>)"
  using sheets_settlements_Nil [of svc e cond stateArg]
    hubspot_settlements_Nil [of svc e cond stateArg]
  by (auto simp: getSettlementData_def getFromCache_miss setCache_def Let_def mergeSettlementData_Nil
      split: prod.splits)

section \<open>Evaluating the example environment\<close>

lemma sample_settlement_rows:
  "readSheet sampleEnv ''Settlements'' =
     Inr ([''Condition'', ''State'', ''Settlement Range''],
          [[(''Condition'', ''Mesothelioma''), (''State'', ''California''), (''Settlement Range'', ''$1M to $2M'')],
           [(''Condition'', ''Silicosis''), (''State'', ''Texas''), (''Settlement Range'', ''$50K'')],
           [(''Condition'', ''Peritoneal mesothelioma''), (''State'', ''Texas''), (''Settlement Range'', ''$900K'')]])"
  by (simp add: readSheet_def sampleEnv_def sampleValues_def rowObject_def setProp_def cell_def)

lemma lower_example_3: "toLowerCase ''Mesothelioma'' = ''mesothelioma''"
  by (simp add: toLowerCase_def toLowerCaseChar_def char_of_def bit_Suc_0_iff)

lemma sample_search:
  "searchSheet sampleEnv ''Settlements'' ''Mesothelioma'' (Some ''Condition'') 20 =
     Inr [(''results'', JRows
            [[(''Condition'', ''Mesothelioma''), (''State'', ''California''), (''Settlement Range'', ''$1M to $2M'')],
             [(''Condition'', ''Peritoneal mesothelioma''), (''State'', ''Texas''), (''Settlement Range'', ''$900K'')]]),
          (''total'', JNum 2), (''query'', JStr ''Mesothelioma''), (''column'', JStr ''Condition'')]"
  by (simp add: searchSheet_def sample_settlement_rows truthy_def template_def columnFilter_def
      lower_example_3 rowField_def slice0_def
      toLowerCase_def toLowerCaseChar_def char_of_def bit_Suc_0_iff)

lemma sample_default: "getDefaultSettlementData ''Mesothelioma'' =
  [defaultSettlement ''Mesothelioma'' ''$1.2 million to $2.4 million'' ''$1.8 million'' ''Thousands'']"
  by (simp add: getDefaultSettlementData_def lower_example_3 defaults_def)

lemma sample_settlement_call:
  "fst (getSettlementData (newService True) sampleEnv clk0 ''Mesothelioma'' None) =
     SettlementList (getDefaultSettlementData ''Mesothelioma'')"
  using getSettlementData_miss_eq [of "newService True" clk0 "''Mesothelioma''" None sampleEnv]
  by (simp add: fresh_def newService_def)

section \<open>Settlement data never comes from the spreadsheet\<close>

text \<open>
  Claim C9. \<open>getSettlementDataFromGoogleSheets\<close> returns the empty list for every
  condition and state: the object \<open>searchSheet\<close> returns has the properties \<open>results\<close>
  and \<open>total\<close> but none named \<open>data\<close>, so the destructured \<open>data\<close> is \<open>undefined\<close>,
  \<open>data.filter\<close> raises and the \<open>catch\<close> branch returns \<open>[]\<close>. Hence every record that
  \<open>getSettlementData\<close> fetches comes from the HubSpot adapter or from the defaults.
\<close>

theorem sheets_never_contribute:
  "fst (getSettlementDataFromGoogleSheets svc e cond stateArg) = [] \<and>
   (searchSheet e ''Settlements'' cond (Some ''Condition'') 20 = Inr obj \<longrightarrow>
      map_of obj ''data'' = None \<and> map_of obj ''results'' \<noteq> None \<and> map_of obj ''total'' \<noteq> None) \<and>
   (\<not> fresh svc (lookupAt clk) (settlementKey cond stateArg) \<and>
    fst (getSettlementData svc e clk cond stateArg) = SettlementList xs \<and> x \<in> set xs \<longrightarrow>
      x \<in> set (fst (getSettlementDataFromHubSpot svc e cond stateArg)) \<or>
      x \<in> set (getDefaultSettlementData cond))"
  using sheets_settlements_Nil [of svc e cond stateArg]
    searchSheet_no_data [of e "''Settlements''" cond "Some ''Condition''" 20 obj]
    searchSheet_props [of e "''Settlements''" cond "Some ''Condition''" 20 obj]
    getSettlementData_miss_eq [of svc clk cond stateArg e]
  by auto

text \<open>
  Witness for C9: the sheet has two rows for the condition and \<open>searchSheet\<close> finds
  them, yet the adapter returns nothing and the facade answers with the default record.
\<close>

theorem sheets_never_contribute_witness:
  "searchSheet sampleEnv ''Settlements'' ''Mesothelioma'' (Some ''Condition'') 20 =
     Inr [(''results'', JRows
            [[(''Condition'', ''Mesothelioma''), (''State'', ''California''), (''Settlement Range'', ''$1M to $2M'')],
             [(''Condition'', ''Peritoneal mesothelioma''), (''State'', ''Texas''), (''Settlement Range'', ''$900K'')]]),
          (''total'', JNum 2), (''query'', JStr ''Mesothelioma''), (''column'', JStr ''Condition'')] \<and>
   fst (getSettlementDataFromGoogleSheets (newService True) sampleEnv ''Mesothelioma'' None) = [] \<and>
   \<not> fresh (newService True) (lookupAt clk0) (settlementKey ''Mesothelioma'' None) \<and>
   fst (getSettlementData (newService True) sampleEnv clk0 ''Mesothelioma'' None) =
     SettlementList [defaultSettlement ''Mesothelioma'' ''$1.2 million to $2.4 million''
                       ''$1.8 million'' ''Thousands''] \<and>
   defaultSettlement ''Mesothelioma'' ''$1.2 million to $2.4 million'' ''$1.8 million'' ''Thousands''
     \<in> set (getDefaultSettlementData ''Mesothelioma'')"
  using sheets_never_contribute [of "newService True" sampleEnv "''Mesothelioma''" None
      "[(''results'', JRows
            [[(''Condition'', ''Mesothelioma''), (''State'', ''California''), (''Settlement Range'', ''$1M to $2M'')],
             [(''Condition'', ''Peritoneal mesothelioma''), (''State'', ''Texas''), (''Settlement Range'', ''$900K'')]]),
          (''total'', JNum 2), (''query'', JStr ''Mesothelioma''), (''column'', JStr ''Condition'')]"
      clk0
      "[defaultSettlement ''Mesothelioma'' ''$1.2 million to $2.4 million'' ''$1.8 million'' ''Thousands'']"
      "defaultSettlement ''Mesothelioma'' ''$1.2 million to $2.4 million'' ''$1.8 million'' ''Thousands''"]
    sample_search sample_settlement_call sample_default
  by (simp add: fresh_def newService_def)

section \<open>A second call within the timeout\<close>

lemma failing_articles:
  "getArticlesFromGoogleSheets (newService True) failingEnv =
     ([], [SheetsRequest ''Medical Conditions'', SheetsRequest ''Legal Cases'',
           SheetsRequest ''Manufacturer Cases''])"
  "getArticlesFromHubSpot (newService True) failingEnv = ([], [HubSpotSearchDiseases])"
  by (simp_all add: getArticlesFromGoogleSheets_def getArticlesFromHubSpot_def newService_def
      failingEnv_def articleSheets_def sheetArticles_def readSheet_def)

lemma fresh_service_miss: "\<not> fresh (newService k) now key"
  by (simp add: fresh_def newService_def)

lemma first_call:
  "getAllArticles (newService True) failingEnv clk0 =
     (ArticleList (getFallbackArticles ''2026-01-01T00:00:00.000Z''), afterFirstCall)"
  apply (simp add: getAllArticles_miss [OF fresh_service_miss] failing_articles mergeArticles_def)
  apply (simp add: newService_def failingEnv_def clk0_def afterFirstCall_def Let_def)
  done

text \<open>
  Claim C5. Let a call of \<open>getAllArticles\<close> miss the cache, fetch, and store its result
  at \<open>storeAt clk\<close>. In every later state in which that entry is intact (no
  \<open>clearCache\<close> in between), a second call whose lookup happens less than the timeout
  after the store returns the very same result and leaves the service unchanged: in
  particular it sends no request to any provider. The timeout of a service is 5 minutes.
\<close>

theorem getAllArticles_idempotent:
  assumes first: "getAllArticles svc e clk = (r, svc1)"
    and stored: "\<not> fresh svc (lookupAt clk) ''all_articles''"
    and intact: "cache svc2 ''all_articles'' = cache svc1 ''all_articles''"
    and timeout: "cacheTimeout svc2 = cacheTimeout svc"
    and within: "lookupAt clk' - storeAt clk < cacheTimeout svc"
  shows "cache svc1 ''all_articles'' = Some \<lparr>data = r, timestamp = storeAt clk\<rparr> \<and>
         getAllArticles svc2 e' clk' = (r, svc2) \<and>
         calls (snd (getAllArticles svc2 e' clk')) = calls svc2 \<and>
         cacheTimeout (newService k) = 5 * 60 * 1000"
proof -
  have s: "cache svc1 ''all_articles'' = Some \<lparr>data = r, timestamp = storeAt clk\<rparr>"
    using getAllArticles_miss_stores [OF stored first] by simp
  have h: "getAllArticles svc2 e' clk' = (r, svc2)"
    using getAllArticles_hit [of svc2 "\<lparr>data = r, timestamp = storeAt clk\<rparr>" clk' e']
      s intact timeout within by simp
  show ?thesis using s h by (simp add: newService_def)
qed

text \<open>
  Witness for C5: the first call, in the failing environment, caches the fallback
  articles after four requests; the second call, 299999 ms after the store and in an
  environment that has data, returns the cached articles and sends nothing.
\<close>

theorem getAllArticles_idempotent_witness:
  "getAllArticles (newService True) failingEnv clk0 =
     (ArticleList (getFallbackArticles ''2026-01-01T00:00:00.000Z''), afterFirstCall) \<and>
   \<not> fresh (newService True) (lookupAt clk0) ''all_articles'' \<and>
   lookupAt clk1 - storeAt clk0 < cacheTimeout (newService True) \<and>
   calls afterFirstCall =
     [SheetsRequest ''Medical Conditions'', SheetsRequest ''Legal Cases'',
      SheetsRequest ''Manufacturer Cases'', HubSpotSearchDiseases] \<and>
   getAllArticles afterFirstCall sampleEnv clk1 =
     (ArticleList (getFallbackArticles ''2026-01-01T00:00:00.000Z''), afterFirstCall)"
proof -
  have b: "cacheTimeout afterFirstCall = cacheTimeout (newService True)"
    by (simp add: afterFirstCall_def newService_def)
  have c: "lookupAt clk1 - storeAt clk0 < cacheTimeout (newService True)"
    by (simp add: clk0_def clk1_def newService_def)
  have d: "calls afterFirstCall =
     [SheetsRequest ''Medical Conditions'', SheetsRequest ''Legal Cases'',
      SheetsRequest ''Manufacturer Cases'', HubSpotSearchDiseases]"
    by (simp add: afterFirstCall_def)
  show ?thesis
    using getAllArticles_idempotent [OF first_call fresh_service_miss refl b c, of sampleEnv True]
      first_call fresh_service_miss c d
    by simp
qed

section \<open>Cache keys built from raw arguments\<close>

lemma lawFirmsKey_null:
  "lawFirmsKey None None = ''law_firms_null_null''"
  "lawFirmsKey (Some ''null'') (Some ''null'') = ''law_firms_null_null''"
  "settlementKey c None = settlementKey c (Some ''null'')"
  by (simp_all add: lawFirmsKey_def settlementKey_def template_def)

lemma failing_firms:
  "getLawFirmsFromGoogleSheets (newService True) failingEnv sp loc = ([], [SheetsRequest ''Law Firms''])"
  "getLawFirmsFromHubSpot (newService True) failingEnv sp loc = ([], [HubSpotFindLawFirms])"
  by (simp_all add: getLawFirmsFromGoogleSheets_def getLawFirmsFromHubSpot_def newService_def
      failingEnv_def readSheet_def)

lemma fallbackFirms_all: "fallbackFirmsFor None = getFallbackLawFirms"
  by (simp add: fallbackFirmsFor_def truthy_def)

lemma fallbackFirms_null: "fallbackFirmsFor (Some ''null'') = []"
  by (simp add: fallbackFirmsFor_def truthy_def template_def getFallbackLawFirms_def
      toLowerCase_def toLowerCaseChar_def char_of_def bit_Suc_0_iff)

lemma fallbackFirms_xyz: "fallbackFirmsFor (Some ''xyz'') = []"
  by (simp add: fallbackFirmsFor_def truthy_def template_def getFallbackLawFirms_def
      toLowerCase_def toLowerCaseChar_def char_of_def bit_Suc_0_iff)

lemma first_firms_call:
  "getLawFirms (newService True) failingEnv clk0 None None =
     (LawFirmList getFallbackLawFirms, afterFirmsCall)"
  apply (simp add: getLawFirms_miss [OF fresh_service_miss] failing_firms fallbackFirms_all)
  apply (simp add: newService_def clk0_def afterFirmsCall_def Let_def lawFirmsKey_null)
  done

lemma fresh_firms_null:
  "fst (getLawFirms (newService True) failingEnv clk0 (Some ''null'') (Some ''null'')) = LawFirmList []"
  by (simp add: getLawFirms_miss [OF fresh_service_miss] failing_firms fallbackFirms_null Let_def)

lemma first_settlement_call:
  "getSettlementData (newService True) failingEnv clk0 ''Mesothelioma'' None =
     (SettlementList (getDefaultSettlementData ''Mesothelioma''), afterSettlementCall)"
  apply (simp add: getSettlementData_miss_eq [OF fresh_service_miss])
  apply (simp add: newService_def clk0_def afterSettlementCall_def settlementKey_def template_def
      getSettlementDataFromGoogleSheets_def getSettlementDataFromHubSpot_def)
  done

text \<open>
  Claim C10. The cache key is built by interpolating the raw arguments, and \<open>null\<close>
  prints as \<open>null\<close>: \<open>getLawFirms(null, null)\<close> and \<open>getLawFirms("null", "null")\<close> both
  use the key \<open>law_firms_null_null\<close>, and \<open>getSettlementData(c, null)\<close> and
  \<open>getSettlementData(c, "null")\<close> use the same key. So after the first of two such
  queries has fetched and stored its result, the second, made within the timeout, returns
  that result.
\<close>

theorem cache_key_collision:
  "lawFirmsKey None None = ''law_firms_null_null'' \<and>
   lawFirmsKey (Some ''null'') (Some ''null'') = ''law_firms_null_null'' \<and>
   settlementKey c None = settlementKey c (Some ''null'') \<and>
   (getLawFirms svc e clk None None = (r, svc1) \<and>
    \<not> fresh svc (lookupAt clk) (lawFirmsKey None None) \<and>
    lookupAt clk' - storeAt clk < cacheTimeout svc \<longrightarrow>
      getLawFirms svc1 e' clk' (Some ''null'') (Some ''null'') = (r, svc1)) \<and>
   (getSettlementData svc e clk c None = (r', svc1') \<and>
    \<not> fresh svc (lookupAt clk) (settlementKey c None) \<and>
    lookupAt clk' - storeAt clk < cacheTimeout svc \<longrightarrow>
      getSettlementData svc1' e' clk' c (Some ''null'') = (r', svc1'))"
proof -
  have firms: "getLawFirms svc1 e' clk' (Some ''null'') (Some ''null'') = (r, svc1)"
    if a: "getLawFirms svc e clk None None = (r, svc1)"
      and m: "\<not> fresh svc (lookupAt clk) (lawFirmsKey None None)"
      and w: "lookupAt clk' - storeAt clk < cacheTimeout svc"
  proof -
    have "cache svc1 (lawFirmsKey (Some ''null'') (Some ''null'')) =
            Some \<lparr>data = r, timestamp = storeAt clk\<rparr> \<and> cacheTimeout svc1 = cacheTimeout svc"
      using a getLawFirms_miss [OF m, of e] by (auto simp: Let_def lawFirmsKey_null)
    then show ?thesis
      using getLawFirms_hit [of svc1 "Some ''null''" "Some ''null''"
          "\<lparr>data = r, timestamp = storeAt clk\<rparr>" clk' e'] w
      by simp
  qed
  have setts: "getSettlementData svc1' e' clk' c (Some ''null'') = (r', svc1')"
    if a: "getSettlementData svc e clk c None = (r', svc1')"
      and m: "\<not> fresh svc (lookupAt clk) (settlementKey c None)"
      and w: "lookupAt clk' - storeAt clk < cacheTimeout svc"
  proof -
    have "cache svc1' (settlementKey c (Some ''null'')) =
            Some \<lparr>data = r', timestamp = storeAt clk\<rparr> \<and> cacheTimeout svc1' = cacheTimeout svc"
      using a getSettlementData_miss_eq [OF m, of e] lawFirmsKey_null(3) [of c] by auto
    then show ?thesis
      using getSettlementData_hit [of svc1' c "Some ''null''"
          "\<lparr>data = r', timestamp = storeAt clk\<rparr>" clk' e'] w
      by simp
  qed
  show ?thesis using firms setts lawFirmsKey_null by blast
qed

text \<open>
  Witness for C10: \<open>getLawFirms(null, null)\<close> caches the three fallback firms, and
  \<open>getLawFirms("null", "null")\<close> then returns these three, although on a fresh service
  it returns none; likewise for the settlement data of one condition.
\<close>

theorem cache_key_collision_witness:
  "getLawFirms (newService True) failingEnv clk0 None None =
     (LawFirmList getFallbackLawFirms, afterFirmsCall) \<and>
   \<not> fresh (newService True) (lookupAt clk0) (lawFirmsKey None None) \<and>
   lookupAt clk1 - storeAt clk0 < cacheTimeout (newService True) \<and>
   getLawFirms afterFirmsCall failingEnv clk1 (Some ''null'') (Some ''null'') =
     (LawFirmList getFallbackLawFirms, afterFirmsCall) \<and>
   fst (getLawFirms (newService True) failingEnv clk0 (Some ''null'') (Some ''null'')) = LawFirmList [] \<and>
   length getFallbackLawFirms = 3 \<and>
   getSettlementData (newService True) failingEnv clk0 ''Mesothelioma'' None =
     (SettlementList (getDefaultSettlementData ''Mesothelioma''), afterSettlementCall) \<and>
   \<not> fresh (newService True) (lookupAt clk0) (settlementKey ''Mesothelioma'' None) \<and>
   getSettlementData afterSettlementCall failingEnv clk1 ''Mesothelioma'' (Some ''null'') =
     (SettlementList (getDefaultSettlementData ''Mesothelioma''), afterSettlementCall)"
proof -
  have c: "lookupAt clk1 - storeAt clk0 < cacheTimeout (newService True)"
    by (simp add: clk0_def clk1_def newService_def)
  have l: "length getFallbackLawFirms = 3"
    by (simp add: getFallbackLawFirms_def)
  show ?thesis
    using cache_key_collision [of "''Mesothelioma''" "newService True" failingEnv clk0
        "LawFirmList getFallbackLawFirms" afterFirmsCall clk1 failingEnv
        "SettlementList (getDefaultSettlementData ''Mesothelioma'')" afterSettlementCall]
      first_firms_call first_settlement_call fresh_service_miss c fresh_firms_null l
    by simp
qed

section \<open>Fallback data\<close>

lemma adapters_frame_calls [simp]:
  "getArticlesFromGoogleSheets (svc\<lparr>calls := l\<rparr>) e = getArticlesFromGoogleSheets svc e"
  "getArticlesFromHubSpot (svc\<lparr>calls := l\<rparr>) e = getArticlesFromHubSpot svc e"
  "getLawFirmsFromGoogleSheets (svc\<lparr>calls := l\<rparr>) e sp loc = getLawFirmsFromGoogleSheets svc e sp loc"
  "getLawFirmsFromHubSpot (svc\<lparr>calls := l\<rparr>) e sp loc = getLawFirmsFromHubSpot svc e sp loc"
  "getSettlementDataFromGoogleSheets (svc\<lparr>calls := l\<rparr>) e cond stateArg =
     getSettlementDataFromGoogleSheets svc e cond stateArg"
  "getSettlementDataFromHubSpot (svc\<lparr>calls := l\<rparr>) e cond stateArg =
     getSettlementDataFromHubSpot svc e cond stateArg"
  by (simp_all add: getArticlesFromGoogleSheets_def getArticlesFromHubSpot_def
      getLawFirmsFromGoogleSheets_def getLawFirmsFromHubSpot_def
      getSettlementDataFromGoogleSheets_def getSettlementDataFromHubSpot_def)

lemma keys_distinct:
  "searchKey c \<noteq> ''all_articles''"
  "searchKey c \<noteq> lawFirmsKey sp loc"
  "searchKey c \<noteq> settlementKey c' s"
  "''all_articles'' \<noteq> lawFirmsKey sp loc"
  "''all_articles'' \<noteq> settlementKey c' s"
  "lawFirmsKey sp loc \<noteq> settlementKey c' s"
  by (simp_all add: searchKey_def lawFirmsKey_def settlementKey_def)

lemma fresh_frame [simp]:
  "fresh (svc\<lparr>calls := l\<rparr>) now key = fresh svc now key"
  "k \<noteq> key \<Longrightarrow> fresh (svc\<lparr>cache := (cache svc)(k := v)\<rparr>) now key = fresh svc now key"
  by (simp_all add: fresh_def split: option.splits)

lemma mergeArticles_Nil [simp]: "mergeArticles [] [] = []"
  by (simp add: mergeArticles_def)

lemma getAllArticles_fallback:
  assumes "\<not> fresh svc (lookupAt clk) ''all_articles''"
    and "fst (getArticlesFromGoogleSheets svc e) = []"
    and "fst (getArticlesFromHubSpot svc e) = []"
  shows "getAllArticles svc e clk =
     (ArticleList (getFallbackArticles (toISOString e)),
      svc\<lparr>cache := (cache svc)(''all_articles'' \<mapsto>
                \<lparr>data = ArticleList (getFallbackArticles (toISOString e)), timestamp = storeAt clk\<rparr>),
          calls := calls svc @ snd (getArticlesFromGoogleSheets svc e) @
                     snd (getArticlesFromHubSpot svc e)\<rparr>)"
  using assms by (simp add: getAllArticles_miss Let_def)

lemma getLawFirms_fallback:
  assumes "\<not> fresh svc (lookupAt clk) (lawFirmsKey sp loc)"
    and "fst (getLawFirmsFromGoogleSheets svc e sp loc) = []"
    and "fst (getLawFirmsFromHubSpot svc e sp loc) = []"
  shows "getLawFirms svc e clk sp loc =
     (LawFirmList (fallbackFirmsFor sp),
      svc\<lparr>cache := (cache svc)(lawFirmsKey sp loc \<mapsto>
                \<lparr>data = LawFirmList (fallbackFirmsFor sp), timestamp = storeAt clk\<rparr>),
          calls := calls svc @ snd (getLawFirmsFromGoogleSheets svc e sp loc) @
                     snd (getLawFirmsFromHubSpot svc e sp loc)\<rparr>)"
  using assms by (simp add: getLawFirms_miss Let_def)

lemma searchCondition_fallback:
  assumes m: "\<not> fresh svc (lookupAt clk) (searchKey c)"
    and ma: "\<not> fresh svc (lookupAt clkA) ''all_articles''"
    and mf: "\<not> fresh svc (lookupAt clkF) (lawFirmsKey (Some c) None)"
    and ms: "\<not> fresh svc (lookupAt clkS) (settlementKey c None)"
    and a1: "fst (getArticlesFromGoogleSheets svc e) = []"
    and a2: "fst (getArticlesFromHubSpot svc e) = []"
    and f1: "fst (getLawFirmsFromGoogleSheets svc e (Some c) None) = []"
    and f2: "fst (getLawFirmsFromHubSpot svc e (Some c) None) = []"
  shows "fst (searchCondition svc e clk clkA clkF clkS c) =
     SearchResult c (filter (matchesCondition c) (getFallbackArticles (toISOString e)))
       (LawFirmList (fallbackFirmsFor (Some c)))
       (SettlementList (getDefaultSettlementData c))
       (generateSummary c (filter (matchesCondition c) (getFallbackArticles (toISOString e)))
          (SettlementList (getDefaultSettlementData c)))"
proof -
  let ?s1 = "svc\<lparr>cache := (cache svc)(searchKey c := None)\<rparr>"
  have g: "getFromCache svc (lookupAt clk) (searchKey c) = (None, ?s1)"
    using getFromCache_miss [OF m] .
  have ma1: "\<not> fresh ?s1 (lookupAt clkA) ''all_articles''"
    using ma keys_distinct(1) [of c] by simp
  obtain s2 where A: "getAllArticles ?s1 e clkA =
      (ArticleList (getFallbackArticles (toISOString e)), s2)"
    and s2: "s2 = ?s1\<lparr>cache := (cache ?s1)(''all_articles'' \<mapsto>
                \<lparr>data = ArticleList (getFallbackArticles (toISOString e)), timestamp = storeAt clkA\<rparr>),
          calls := calls ?s1 @ snd (getArticlesFromGoogleSheets ?s1 e) @
                     snd (getArticlesFromHubSpot ?s1 e)\<rparr>"
    using getAllArticles_fallback [OF ma1, of e] a1 a2 by simp
  have mf2: "\<not> fresh s2 (lookupAt clkF) (lawFirmsKey (Some c) None)"
    using mf keys_distinct(2) [of c "Some c" None] keys_distinct(4) [of "Some c" None]
    by (simp add: s2 fresh_def split: option.splits)
  have f12: "fst (getLawFirmsFromGoogleSheets s2 e (Some c) None) = []"
      "fst (getLawFirmsFromHubSpot s2 e (Some c) None) = []"
    using f1 f2 by (simp_all add: s2)
  obtain s3 where F: "getLawFirms s2 e clkF (Some c) None = (LawFirmList (fallbackFirmsFor (Some c)), s3)"
    and s3: "s3 = s2\<lparr>cache := (cache s2)(lawFirmsKey (Some c) None \<mapsto>
                \<lparr>data = LawFirmList (fallbackFirmsFor (Some c)), timestamp = storeAt clkF\<rparr>),
          calls := calls s2 @ snd (getLawFirmsFromGoogleSheets s2 e (Some c) None) @
                     snd (getLawFirmsFromHubSpot s2 e (Some c) None)\<rparr>"
    using getLawFirms_fallback [OF mf2 f12] by simp
  have ms3: "\<not> fresh s3 (lookupAt clkS) (settlementKey c None)"
    using ms keys_distinct(3) [of c c None] keys_distinct(5) [of c None]
      keys_distinct(6) [of "Some c" None c None]
    by (simp add: s3 s2 fresh_def split: option.splits)
  have S: "fst (getSettlementData s3 e clkS c None) = SettlementList (getDefaultSettlementData c)"
    using getSettlementData_miss_eq [OF ms3, of e] by simp
  show ?thesis
    using g A F S
    by (auto simp add: searchCondition_def searchArticles_def Let_def split: prod.splits)
qed

lemma fallbackArticles_tagged:
  "length (getFallbackArticles stamp) = 6 \<and>
   (\<forall>a \<in> set (getFallbackArticles stamp). articleSource a = ''fallback'')"
  by (simp add: getFallbackArticles_def fallbackArticle1_def fallbackArticle2_def
      fallbackArticle3_def fallbackArticle4_def fallbackArticle5_def fallbackArticle6_def)

lemma fallbackFirms_tagged: "\<forall>f \<in> set (fallbackFirmsFor sp). firmSource f = ''fallback''"
  by (auto simp: fallbackFirmsFor_def getFallbackLawFirms_def)

lemma defaultSettlement_tagged:
  "length (getDefaultSettlementData c) = 1 \<and>
   (toLowerCase c \<noteq> ''constructor'' \<and> toLowerCase c \<noteq> ''__proto__'' \<longrightarrow>
      (\<forall>x \<in> set (getDefaultSettlementData c). settlementSource x = Some ''fallback''))"
  by (auto simp: getDefaultSettlementData_def defaults_def defaultSettlement_def
      split: option.splits if_splits)

lemma fallbackFirms_meso:
  "fallbackFirmsFor (Some ''Mesothelioma'') = [hd getFallbackLawFirms]"
  by (simp add: fallbackFirmsFor_def truthy_def template_def getFallbackLawFirms_def
      toLowerCase_def toLowerCaseChar_def char_of_def bit_Suc_0_iff)

text \<open>
  Claim C1, as the code has it. On a cache miss, when both adapters of a query yield
  nothing (they fail or return empty arrays):
  \<^item> \<open>getAllArticles\<close> returns the six built-in fallback articles, all tagged
    \<open>fallback\<close>;
  \<^item> \<open>getLawFirms\<close> returns the built-in fallback firms filtered by the specialty: all
    three when no specialty is given, and only those with a matching specialty
    otherwise, which may be none; every firm returned is tagged \<open>fallback\<close>;
  \<^item> \<open>getSettlementData\<close> returns exactly one default record for the condition,
    tagged \<open>fallback\<close> unless the lowercased condition is \<open>constructor\<close> or
    \<open>__proto__\<close>;
  \<^item> \<open>searchCondition\<close> returns the object made of the fallback articles that match
    the condition, these filtered fallback firms, that default record and the summary.
  Each operation returns a value: none of them raises.
\<close>

theorem fallback_when_providers_empty:
  "(\<not> fresh svc (lookupAt clk) ''all_articles'' \<and>
    fst (getArticlesFromGoogleSheets svc e) = [] \<and> fst (getArticlesFromHubSpot svc e) = [] \<longrightarrow>
      fst (getAllArticles svc e clk) = ArticleList (getFallbackArticles (toISOString e))) \<and>
   (\<not> fresh svc (lookupAt clk) (lawFirmsKey sp loc) \<and>
    fst (getLawFirmsFromGoogleSheets svc e sp loc) = [] \<and>
    fst (getLawFirmsFromHubSpot svc e sp loc) = [] \<longrightarrow>
      fst (getLawFirms svc e clk sp loc) = LawFirmList (fallbackFirmsFor sp)) \<and>
   (\<not> fresh svc (lookupAt clk) (settlementKey c stateArg) \<longrightarrow>
      fst (getSettlementData svc e clk c stateArg) = SettlementList (getDefaultSettlementData c)) \<and>
   (\<not> fresh svc (lookupAt clk) (searchKey c) \<and>
    \<not> fresh svc (lookupAt clkA) ''all_articles'' \<and>
    \<not> fresh svc (lookupAt clkF) (lawFirmsKey (Some c) None) \<and>
    \<not> fresh svc (lookupAt clkS) (settlementKey c None) \<and>
    fst (getArticlesFromGoogleSheets svc e) = [] \<and> fst (getArticlesFromHubSpot svc e) = [] \<and>
    fst (getLawFirmsFromGoogleSheets svc e (Some c) None) = [] \<and>
    fst (getLawFirmsFromHubSpot svc e (Some c) None) = [] \<longrightarrow>
      fst (searchCondition svc e clk clkA clkF clkS c) =
        SearchResult c (filter (matchesCondition c) (getFallbackArticles (toISOString e)))
          (LawFirmList (fallbackFirmsFor (Some c)))
          (SettlementList (getDefaultSettlementData c))
          (generateSummary c (filter (matchesCondition c) (getFallbackArticles (toISOString e)))
             (SettlementList (getDefaultSettlementData c)))) \<and>
   length (getFallbackArticles stamp) = 6 \<and>
   (\<forall>a \<in> set (getFallbackArticles stamp). articleSource a = ''fallback'') \<and>
   fallbackFirmsFor None = getFallbackLawFirms \<and>
   (\<forall>f \<in> set (fallbackFirmsFor sp). firmSource f = ''fallback'') \<and>
   length (getDefaultSettlementData c) = 1 \<and>
   (toLowerCase c \<noteq> ''constructor'' \<and> toLowerCase c \<noteq> ''__proto__'' \<longrightarrow>
      (\<forall>x \<in> set (getDefaultSettlementData c). settlementSource x = Some ''fallback''))"
proof -
  have A: "fst (getAllArticles svc e clk) = ArticleList (getFallbackArticles (toISOString e))"
    if "\<not> fresh svc (lookupAt clk) ''all_articles''"
      "fst (getArticlesFromGoogleSheets svc e) = []" "fst (getArticlesFromHubSpot svc e) = []"
    using getAllArticles_fallback [OF that] by simp
  have B: "fst (getLawFirms svc e clk sp loc) = LawFirmList (fallbackFirmsFor sp)"
    if "\<not> fresh svc (lookupAt clk) (lawFirmsKey sp loc)"
      "fst (getLawFirmsFromGoogleSheets svc e sp loc) = []"
      "fst (getLawFirmsFromHubSpot svc e sp loc) = []"
    using getLawFirms_fallback [OF that] by simp
  have C: "fst (getSettlementData svc e clk c stateArg) = SettlementList (getDefaultSettlementData c)"
    if "\<not> fresh svc (lookupAt clk) (settlementKey c stateArg)"
    using getSettlementData_miss_eq [OF that, of e] by simp
  show ?thesis
    using A B C searchCondition_fallback [of svc clk c clkA clkF clkS e]
      fallbackArticles_tagged [of stamp] fallbackFirms_all fallbackFirms_tagged [of sp]
      defaultSettlement_tagged [of c]
    by blast
qed

text \<open>
  Witness for C1: in the environment where every request fails, a fresh service answers
  the four queries for \<open>Mesothelioma\<close> from the fallback data.
\<close>

theorem fallback_when_providers_empty_witness:
  "\<not> fresh (newService True) (lookupAt clk0) ''all_articles'' \<and>
   fst (getArticlesFromGoogleSheets (newService True) failingEnv) = [] \<and>
   fst (getArticlesFromHubSpot (newService True) failingEnv) = [] \<and>
   fst (getAllArticles (newService True) failingEnv clk0) =
     ArticleList (getFallbackArticles ''2026-01-01T00:00:00.000Z'') \<and>
   \<not> fresh (newService True) (lookupAt clk0) (lawFirmsKey (Some ''Mesothelioma'') None) \<and>
   fst (getLawFirmsFromGoogleSheets (newService True) failingEnv (Some ''Mesothelioma'') None) = [] \<and>
   fst (getLawFirmsFromHubSpot (newService True) failingEnv (Some ''Mesothelioma'') None) = [] \<and>
   fst (getLawFirms (newService True) failingEnv clk0 (Some ''Mesothelioma'') None) =
     LawFirmList [hd getFallbackLawFirms] \<and>
   \<not> fresh (newService True) (lookupAt clk0) (settlementKey ''Mesothelioma'' None) \<and>
   fst (getSettlementData (newService True) failingEnv clk0 ''Mesothelioma'' None) =
     SettlementList [defaultSettlement ''Mesothelioma'' ''$1.2 million to $2.4 million''
                       ''$1.8 million'' ''Thousands''] \<and>
   \<not> fresh (newService True) (lookupAt clk0) (searchKey ''Mesothelioma'') \<and>
   fst (searchCondition (newService True) failingEnv clk0 clk0 clk0 clk0 ''Mesothelioma'') =
     SearchResult ''Mesothelioma''
       (filter (matchesCondition ''Mesothelioma'') (getFallbackArticles ''2026-01-01T00:00:00.000Z''))
       (LawFirmList [hd getFallbackLawFirms])
       (SettlementList [defaultSettlement ''Mesothelioma'' ''$1.2 million to $2.4 million''
                          ''$1.8 million'' ''Thousands''])
       (generateSummary ''Mesothelioma''
          (filter (matchesCondition ''Mesothelioma'') (getFallbackArticles ''2026-01-01T00:00:00.000Z''))
          (SettlementList [defaultSettlement ''Mesothelioma'' ''$1.2 million to $2.4 million''
                             ''$1.8 million'' ''Thousands''])) \<and>
   toLowerCase ''Mesothelioma'' \<noteq> ''constructor'' \<and> toLowerCase ''Mesothelioma'' \<noteq> ''__proto__'' \<and>
   settlementSource (defaultSettlement ''Mesothelioma'' ''$1.2 million to $2.4 million''
                       ''$1.8 million'' ''Thousands'') = Some ''fallback''"
proof -
  have t: "toISOString failingEnv = ''2026-01-01T00:00:00.000Z''"
    by (simp add: failingEnv_def)
  show ?thesis
    using fallback_when_providers_empty [of "newService True" clk0 failingEnv
        "Some ''Mesothelioma''" None "''Mesothelioma''" None clk0 clk0 clk0 "''x''"]
      fresh_service_miss failing_articles failing_firms fallbackFirms_meso sample_default t
    by (simp add: lower_example_3)
qed

text \<open>
  Counterexample to C1 as stated: every request fails, and \<open>getLawFirms("xyz")\<close>
  returns the empty array, because no fallback firm has a specialty that contains
  \<open>xyz\<close>.
\<close>

theorem getLawFirms_empty_counterexample:
  "\<not> fresh (newService True) (lookupAt clk0) (lawFirmsKey (Some ''xyz'') None) \<and>
   fst (getLawFirmsFromGoogleSheets (newService True) failingEnv (Some ''xyz'') None) = [] \<and>
   fst (getLawFirmsFromHubSpot (newService True) failingEnv (Some ''xyz'') None) = [] \<and>
   fst (getLawFirms (newService True) failingEnv clk0 (Some ''xyz'') None) = LawFirmList []"
  by (simp add: getLawFirms_miss [OF fresh_service_miss] failing_firms fallbackFirms_xyz Let_def
      fresh_service_miss)

section \<open>Merging articles\<close>

lemma dedupe_subset: "set (dedupe seen xs) \<subseteq> set xs"
  by (induction xs arbitrary: seen) (auto simp: Let_def)

lemma dedupe_sameTitle:
  "filter (sameTitle k) (dedupe seen xs) =
     (if k \<in> seen then [] else take 1 (filter (sameTitle k) xs))"
proof (induction xs arbitrary: seen)
  case Nil
  show ?case by simp
next
  case (Cons a xs)
  show ?case
  proof (cases "toLowerCase (title a) \<in> seen")
    case True
    then show ?thesis using Cons [of seen] by (auto simp: Let_def sameTitle_def)
  next
    case False
    then show ?thesis using Cons [of "insert (toLowerCase (title a)) seen"]
      by (auto simp: Let_def sameTitle_def)
  qed
qed

lemma mergeArticles_sameTitle:
  "filter (sameTitle k) (mergeArticles s h) = take 1 (filter (sameTitle k) (s @ h))"
  by (simp add: mergeArticles_def dedupe_sameTitle)

lemma mapSheetRowToArticle_tagged:
  "mapSheetRowToArticle e r n i = Some a \<Longrightarrow>
     articleSource a = ''google_sheets'' \<and> idHasPrefix ''sheets_'' (articleId a)"
  by (auto simp: mapSheetRowToArticle_def idHasPrefix_def split: if_splits)

lemma in_map_filter: "y \<in> set (List.map_filter f xs) \<Longrightarrow> \<exists>x \<in> set xs. f x = Some y"
  by (induction xs) (auto split: option.splits)

lemma sheetArticles_tagged:
  assumes "a \<in> set (sheetArticles e n)"
  shows "articleSource a = ''google_sheets'' \<and> idHasPrefix ''sheets_'' (articleId a)"
proof (cases "readSheet e n")
  case (Inl err)
  then show ?thesis using assms by (simp add: sheetArticles_def)
next
  case (Inr hr)
  obtain headers rows where hr: "hr = (headers, rows)" by (cases hr)
  have "a \<in> set (List.map_filter (\<lambda>(i, r). mapSheetRowToArticle e r n i) (enumerate 0 rows))"
    using assms Inr hr by (simp add: sheetArticles_def)
  then obtain x where "(case x of (i, r) \<Rightarrow> mapSheetRowToArticle e r n i) = Some a"
    using in_map_filter by fastforce
  then show ?thesis using mapSheetRowToArticle_tagged by (cases x) auto
qed

lemma sheets_articles_tagged:
  "a \<in> set (fst (getArticlesFromGoogleSheets svc e)) \<Longrightarrow>
     articleSource a = ''google_sheets'' \<and> idHasPrefix ''sheets_'' (articleId a)"
  using sheetArticles_tagged by (auto simp: getArticlesFromGoogleSheets_def split: if_splits)

lemma hubspot_articles_tagged:
  "a \<in> set (fst (getArticlesFromHubSpot svc e)) \<Longrightarrow>
     articleSource a = ''hubspot'' \<and> idHasPrefix ''hubspot_'' (articleId a)"
  by (auto simp: getArticlesFromHubSpot_def diseaseArticle_def idHasPrefix_def
      split: if_splits sum.splits)

lemma slug_examples:
  "createSlug ''Mesothelioma Guide'' = ''mesothelioma-guide''"
  "createSlug ''mesothelioma guide'' = ''mesothelioma-guide''"
  "createSlug ''Roundup Lawsuit'' = ''roundup-lawsuit''"
  by (simp_all add: createSlug_def toLowerCase_def toLowerCaseChar_def char_of_def bit_Suc_0_iff
      alnum_def trimHyphens_def)

lemma sample_sheet_articles:
  "fst (getArticlesFromGoogleSheets (newService True) sampleEnv) = [sampleSheetArticle]"
  by (simp add: getArticlesFromGoogleSheets_def newService_def articleSheets_def sheetArticles_def
      readSheet_def sampleEnv_def sampleValues_def rowObject_def setProp_def cell_def
      mapSheetRowToArticle_def rowField_def orElse_def parseList_def slug_examples
      sampleSheetArticle_def enumerate_eq_zip)

lemma sample_hubspot_articles:
  "fst (getArticlesFromHubSpot (newService True) sampleEnv) =
     [sampleHubSpotDuplicate, sampleHubSpotRoundup]"
  by (simp add: getArticlesFromHubSpot_def newService_def sampleEnv_def diseaseArticle_def
      orElse_def slug_examples sampleHubSpotDuplicate_def sampleHubSpotRoundup_def)

lemma sample_titles:
  "toLowerCase (title sampleSheetArticle) = ''mesothelioma guide''"
  "toLowerCase (title sampleHubSpotDuplicate) = ''mesothelioma guide''"
  "toLowerCase (title sampleHubSpotRoundup) = ''roundup lawsuit''"
  by (simp_all add: sampleSheetArticle_def sampleHubSpotDuplicate_def sampleHubSpotRoundup_def
      toLowerCase_def toLowerCaseChar_def char_of_def bit_Suc_0_iff)

lemma sample_merge:
  "mergeArticles [sampleSheetArticle] [sampleHubSpotDuplicate, sampleHubSpotRoundup] =
     [sampleSheetArticle, sampleHubSpotRoundup]"
  by (simp add: mergeArticles_def sample_titles Let_def)

lemma sample_distinct: "sampleHubSpotDuplicate \<noteq> sampleSheetArticle"
  "sampleHubSpotDuplicate \<noteq> sampleHubSpotRoundup"
  by (simp_all add: sampleSheetArticle_def sampleHubSpotDuplicate_def sampleHubSpotRoundup_def)

text \<open>
  Claim C2. Let \<open>getAllArticles\<close> miss the cache, and let the spreadsheet adapter return
  an article \<open>a\<close> and the HubSpot adapter an article \<open>b\<close> with the same lowercased
  title. Then the result is the merged list, it contains exactly one article with that
  normalized title, that article is the spreadsheet's (the first of the spreadsheet's
  articles with that title, so \<open>a\<close> itself when the sheet has the title once), and \<open>b\<close>
  is not in the result. The merge takes the two results in the order of the array given
  to \<open>Promise.all\<close>, the spreadsheet's first, so the order in which the two requests
  complete is no input of it.
\<close>

theorem spreadsheet_wins_duplicates:
  assumes miss: "\<not> fresh svc (lookupAt clk) ''all_articles''"
    and a: "a \<in> set (fst (getArticlesFromGoogleSheets svc e))"
    and b: "b \<in> set (fst (getArticlesFromHubSpot svc e))"
    and k: "toLowerCase (title a) = toLowerCase (title b)"
  shows "fst (getAllArticles svc e clk) =
           ArticleList (mergeArticles (fst (getArticlesFromGoogleSheets svc e))
                          (fst (getArticlesFromHubSpot svc e))) \<and>
         filter (sameTitle (toLowerCase (title a)))
           (mergeArticles (fst (getArticlesFromGoogleSheets svc e)) (fst (getArticlesFromHubSpot svc e)))
           = [hd (filter (sameTitle (toLowerCase (title a))) (fst (getArticlesFromGoogleSheets svc e)))] \<and>
         hd (filter (sameTitle (toLowerCase (title a))) (fst (getArticlesFromGoogleSheets svc e)))
           \<in> set (fst (getArticlesFromGoogleSheets svc e)) \<and>
         articleSource (hd (filter (sameTitle (toLowerCase (title a)))
                              (fst (getArticlesFromGoogleSheets svc e)))) = ''google_sheets'' \<and>
         (filter (sameTitle (toLowerCase (title a))) (fst (getArticlesFromGoogleSheets svc e)) = [a] \<longrightarrow>
            filter (sameTitle (toLowerCase (title a)))
              (mergeArticles (fst (getArticlesFromGoogleSheets svc e)) (fst (getArticlesFromHubSpot svc e)))
              = [a]) \<and>
         b \<notin> set (mergeArticles (fst (getArticlesFromGoogleSheets svc e))
                     (fst (getArticlesFromHubSpot svc e)))"
proof -
  let ?S = "fst (getArticlesFromGoogleSheets svc e)"
  let ?H = "fst (getArticlesFromHubSpot svc e)"
  let ?k = "toLowerCase (title a)"
  let ?F = "filter (sameTitle ?k) ?S"
  have ne: "?F \<noteq> []"
    using a by (auto simp: filter_empty_conv sameTitle_def)
  then obtain s rest where F: "?F = s # rest" by (cases ?F) auto
  have s_in: "s \<in> set ?S"
    using F by (metis filter_is_subset list.set_intros(1) subsetD)
  have m: "filter (sameTitle ?k) (mergeArticles ?S ?H) = [s]"
    by (simp add: mergeArticles_sameTitle F)
  have src: "articleSource s = ''google_sheets''"
    using sheets_articles_tagged [OF s_in] by simp
  have mne: "mergeArticles ?S ?H \<noteq> []"
    using m by auto
  have res: "fst (getAllArticles svc e clk) = ArticleList (mergeArticles ?S ?H)"
    using mne by (simp add: getAllArticles_miss [OF miss] Let_def)
  have bsrc: "articleSource b = ''hubspot''"
    using hubspot_articles_tagged [OF b] by simp
  have bnot: "b \<notin> set (mergeArticles ?S ?H)"
  proof
    assume "b \<in> set (mergeArticles ?S ?H)"
    then have "b \<in> set (filter (sameTitle ?k) (mergeArticles ?S ?H))"
      using k by (simp add: sameTitle_def)
    then have "b = s" using m by simp
    then show False using src bsrc by simp
  qed
  show ?thesis using res m F s_in src bnot by auto
qed

text \<open>
  Witness for C2: the spreadsheet has \<open>Mesothelioma Guide\<close>, HubSpot has
  \<open>mesothelioma guide\<close> and \<open>Roundup Lawsuit\<close>; the result has two articles, and the
  one on mesothelioma is the spreadsheet's.
\<close>

theorem spreadsheet_wins_duplicates_witness:
  "\<not> fresh (newService True) (lookupAt clk0) ''all_articles'' \<and>
   sampleSheetArticle \<in> set (fst (getArticlesFromGoogleSheets (newService True) sampleEnv)) \<and>
   sampleHubSpotDuplicate \<in> set (fst (getArticlesFromHubSpot (newService True) sampleEnv)) \<and>
   toLowerCase (title sampleSheetArticle) = toLowerCase (title sampleHubSpotDuplicate) \<and>
   fst (getAllArticles (newService True) sampleEnv clk0) =
     ArticleList [sampleSheetArticle, sampleHubSpotRoundup] \<and>
   filter (sameTitle ''mesothelioma guide'') [sampleSheetArticle, sampleHubSpotRoundup] =
     [sampleSheetArticle] \<and>
   articleSource sampleSheetArticle = ''google_sheets'' \<and>
   sampleHubSpotDuplicate \<notin> set [sampleSheetArticle, sampleHubSpotRoundup]"
proof -
  have a: "sampleSheetArticle \<in> set (fst (getArticlesFromGoogleSheets (newService True) sampleEnv))"
    by (simp add: sample_sheet_articles)
  have b: "sampleHubSpotDuplicate \<in> set (fst (getArticlesFromHubSpot (newService True) sampleEnv))"
    by (simp add: sample_hubspot_articles)
  have k: "toLowerCase (title sampleSheetArticle) = toLowerCase (title sampleHubSpotDuplicate)"
    by (simp add: sample_titles)
  show ?thesis
    using spreadsheet_wins_duplicates [OF fresh_service_miss a b k, of clk0] a b k fresh_service_miss
    by (simp add: sample_sheet_articles sample_hubspot_articles sample_merge sample_titles
        sameTitle_def sample_distinct)
qed

section \<open>Ids and source tags\<close>

lemma sheets_firms_tagged:
  "f \<in> set (fst (getLawFirmsFromGoogleSheets svc e sp loc)) \<Longrightarrow>
     firmSource f = ''google_sheets'' \<and> prefix ''sheets_'' (firmId f)"
  by (auto simp: getLawFirmsFromGoogleSheets_def sheetFirm_def split: if_splits sum.splits)

lemma hubspot_firms_tagged:
  "f \<in> set (fst (getLawFirmsFromHubSpot svc e sp loc)) \<Longrightarrow>
     firmSource f = ''hubspot'' \<and> prefix ''hubspot_'' (firmId f)"
  by (auto simp: getLawFirmsFromHubSpot_def hubspotLawFirm_def split: if_splits sum.splits)

lemma fallback_firms_ids:
  "f \<in> set getFallbackLawFirms \<Longrightarrow> firmSource f = ''fallback'' \<and> prefix ''fallback_'' (firmId f)"
  by (auto simp: getFallbackLawFirms_def)

lemma prefix_clash:
  "prefix ''sheets_'' s \<Longrightarrow> \<not> prefix ''hubspot_'' s"
  "prefix ''sheets_'' s \<Longrightarrow> \<not> prefix ''fallback_'' s"
  "prefix ''hubspot_'' s \<Longrightarrow> \<not> prefix ''fallback_'' s"
  by (auto simp: prefix_def)

lemma mergeArticles_subset: "set (mergeArticles s h) \<subseteq> set s \<union> set h"
  using dedupe_subset [of "{}" "s @ h"] by (simp add: mergeArticles_def)

lemma articles_ids_distinct:
  assumes miss: "\<not> fresh svc (lookupAt clk) ''all_articles''"
    and r: "fst (getAllArticles svc e clk) = ArticleList xs"
    and x: "x \<in> set xs" and y: "y \<in> set xs"
    and d: "articleSource x \<noteq> articleSource y"
  shows "articleId x \<noteq> articleId y"
proof -
  let ?S = "fst (getArticlesFromGoogleSheets svc e)"
  let ?H = "fst (getArticlesFromHubSpot svc e)"
  show ?thesis
  proof (cases "mergeArticles ?S ?H = []")
    case True
    then have "xs = getFallbackArticles (toISOString e)"
      using r by (simp add: getAllArticles_miss [OF miss] Let_def)
    then show ?thesis using x y d fallbackArticles_tagged [of "toISOString e"] by simp
  next
    case False
    then have "xs = mergeArticles ?S ?H"
      using r by (simp add: getAllArticles_miss [OF miss] Let_def)
    then have "x \<in> set ?S \<union> set ?H" "y \<in> set ?S \<union> set ?H"
      using x y mergeArticles_subset by blast+
    then show ?thesis
      using d sheets_articles_tagged [of x svc e] sheets_articles_tagged [of y svc e]
        hubspot_articles_tagged [of x svc e] hubspot_articles_tagged [of y svc e]
        prefix_clash(1)
      by (auto simp: idHasPrefix_def split: idval.splits)
  qed
qed

lemma firms_ids_distinct:
  assumes miss: "\<not> fresh svc (lookupAt clk) (lawFirmsKey sp loc)"
    and r: "fst (getLawFirms svc e clk sp loc) = LawFirmList xs"
    and x: "x \<in> set xs" and y: "y \<in> set xs"
    and d: "firmSource x \<noteq> firmSource y"
  shows "firmId x \<noteq> firmId y"
proof -
  let ?S = "fst (getLawFirmsFromGoogleSheets svc e sp loc)"
  let ?H = "fst (getLawFirmsFromHubSpot svc e sp loc)"
  show ?thesis
  proof (cases "?S @ ?H = []")
    case True
    then have "xs = fallbackFirmsFor sp"
      using r by (simp add: getLawFirms_miss [OF miss] Let_def)
    then show ?thesis using x y d fallbackFirms_tagged [of sp] by simp
  next
    case False
    then have "xs = ?S @ ?H"
      using r by (auto simp add: getLawFirms_miss [OF miss] Let_def split: if_splits)
    then have "x \<in> set ?S \<union> set ?H" "y \<in> set ?S \<union> set ?H"
      using x y by auto
    then show ?thesis
      using d sheets_firms_tagged [of x svc e sp loc] sheets_firms_tagged [of y svc e sp loc]
        hubspot_firms_tagged [of x svc e sp loc] hubspot_firms_tagged [of y svc e sp loc]
        prefix_clash(1)
      by auto
  qed
qed

lemma sample_firm_rows:
  "readSheet sampleEnv ''Law Firms'' =
     Inr ([''ID'', ''Name'', ''Specialties'', ''Location''],
          [[(''ID'', ''1''), (''Name'', ''Smith Law''), (''Specialties'', ''Mesothelioma; Asbestos''),
            (''Location'', ''Austin, TX'')],
           [(''ID'', ''''), (''Name'', ''Jones Law''), (''Specialties'', ''Roundup''),
            (''Location'', ''Miami, FL'')]])"
  by (simp add: readSheet_def sampleEnv_def sampleValues_def rowObject_def setProp_def cell_def)

lemma sample_sheet_firms:
  "fst (getLawFirmsFromGoogleSheets (newService True) sampleEnv None None) =
     [sheetFirm sampleEnv
        [(''ID'', ''1''), (''Name'', ''Smith Law''), (''Specialties'', ''Mesothelioma; Asbestos''),
         (''Location'', ''Austin, TX'')] 0,
      sheetFirm sampleEnv
        [(''ID'', ''''), (''Name'', ''Jones Law''), (''Specialties'', ''Roundup''),
         (''Location'', ''Miami, FL'')] 1]"
  by (simp add: getLawFirmsFromGoogleSheets_def newService_def sample_firm_rows passes_def
      enumerate_eq_zip)

lemma sample_hubspot_firms:
  "fst (getLawFirmsFromHubSpot (newService True) sampleEnv None None) =
     [hubspotLawFirm
        \<lparr>hsId = ''9001'', hsName = Some ''Acme Legal'', hsLocation = ''Reno, NV'',
         hsPhone = None, hsWebsite = None, hsSpecialties = [''Mesothelioma''],
         hsExperience = None, hsSuccessRate = None, hsNotableSettlements = []\<rparr>]"
  by (simp add: getLawFirmsFromHubSpot_def newService_def sampleEnv_def)

lemma sample_firm_ids:
  "firmId (sheetFirm sampleEnv
        [(''ID'', ''''), (''Name'', ''Jones Law''), (''Specialties'', ''Roundup''),
         (''Location'', ''Miami, FL'')] 1) = ''sheets_firm_0.25''"
  "firmId (hubspotLawFirm
        \<lparr>hsId = ''9001'', hsName = Some ''Acme Legal'', hsLocation = ''Reno, NV'',
         hsPhone = None, hsWebsite = None, hsSpecialties = [''Mesothelioma''],
         hsExperience = None, hsSuccessRate = None, hsNotableSettlements = []\<rparr>) = ''hubspot_firm_9001''"
  by (simp_all add: sheetFirm_def hubspotLawFirm_def rowField_def orElse_def sampleEnv_def)

lemma sample_all_articles:
  "fst (getAllArticles (newService True) sampleEnv clk0) =
     ArticleList [sampleSheetArticle, sampleHubSpotRoundup]"
  by (simp add: getAllArticles_miss [OF fresh_service_miss] sample_sheet_articles
      sample_hubspot_articles sample_merge Let_def)

lemma sample_all_firms:
  "fst (getLawFirms (newService True) sampleEnv clk0 None None) =
     LawFirmList (fst (getLawFirmsFromGoogleSheets (newService True) sampleEnv None None) @
                  fst (getLawFirmsFromHubSpot (newService True) sampleEnv None None))"
  by (simp add: getLawFirms_miss [OF fresh_service_miss] sample_sheet_firms
      sample_hubspot_firms Let_def)

text \<open>
  Claim C7, as the code has it. Every article and every law firm that an adapter builds
  carries a string id that starts with the tag of its provider: \<open>sheets_\<close> for records
  of the spreadsheet (source \<open>google_sheets\<close>) and \<open>hubspot_\<close> for records of HubSpot
  (source \<open>hubspot\<close>); every built-in fallback law firm carries an id that starts with
  \<open>fallback_\<close>. So in a fetched result of \<open>getAllArticles\<close> or \<open>getLawFirms\<close> two
  records of different sources never have the same id. Settlement records carry no id.
\<close>

theorem ids_prefixed_by_source:
  "(a \<in> set (fst (getArticlesFromGoogleSheets svc e)) \<longrightarrow>
      articleSource a = ''google_sheets'' \<and> idHasPrefix ''sheets_'' (articleId a)) \<and>
   (a \<in> set (fst (getArticlesFromHubSpot svc e)) \<longrightarrow>
      articleSource a = ''hubspot'' \<and> idHasPrefix ''hubspot_'' (articleId a)) \<and>
   (f \<in> set (fst (getLawFirmsFromGoogleSheets svc e sp loc)) \<longrightarrow>
      firmSource f = ''google_sheets'' \<and> prefix ''sheets_'' (firmId f)) \<and>
   (f \<in> set (fst (getLawFirmsFromHubSpot svc e sp loc)) \<longrightarrow>
      firmSource f = ''hubspot'' \<and> prefix ''hubspot_'' (firmId f)) \<and>
   (f \<in> set getFallbackLawFirms \<longrightarrow>
      firmSource f = ''fallback'' \<and> prefix ''fallback_'' (firmId f)) \<and>
   (\<not> fresh svc (lookupAt clk) ''all_articles'' \<and>
    fst (getAllArticles svc e clk) = ArticleList xs \<and> x \<in> set xs \<and> y \<in> set xs \<and>
    articleSource x \<noteq> articleSource y \<longrightarrow> articleId x \<noteq> articleId y) \<and>
   (\<not> fresh svc (lookupAt clk) (lawFirmsKey sp loc) \<and>
    fst (getLawFirms svc e clk sp loc) = LawFirmList fs \<and> g \<in> set fs \<and> h \<in> set fs \<and>
    firmSource g \<noteq> firmSource h \<longrightarrow> firmId g \<noteq> firmId h) \<and>
   (s \<in> set (fst (getSettlementDataFromGoogleSheets svc e c stateArg)) \<union>
          set (fst (getSettlementDataFromHubSpot svc e c stateArg)) \<union>
          set (getDefaultSettlementData c) \<longrightarrow> settlementId s = None)"
  using sheets_articles_tagged [of a svc e] hubspot_articles_tagged [of a svc e]
    sheets_firms_tagged [of f svc e sp loc] hubspot_firms_tagged [of f svc e sp loc]
    fallback_firms_ids [of f]
    articles_ids_distinct [of svc clk e xs x y]
    firms_ids_distinct [of svc clk sp loc e fs g h]
    sheets_settlements_Nil [of svc e c stateArg] hubspot_settlements_Nil [of svc e c stateArg]
  by (auto simp: getDefaultSettlementData_def defaults_def defaultSettlement_def inheritedMember_def
      split: option.splits if_splits)

text \<open>
  Witness for C7: the records of the example environment. The law firm without an \<open>ID\<close>
  cell gets \<open>sheets_firm_\<close> followed by the random number.
\<close>

theorem ids_prefixed_by_source_witness:
  "sampleSheetArticle \<in> set (fst (getArticlesFromGoogleSheets (newService True) sampleEnv)) \<and>
   articleId sampleSheetArticle = IdStr ''sheets_medical_7'' \<and>
   idHasPrefix ''sheets_'' (articleId sampleSheetArticle) \<and>
   sampleHubSpotRoundup \<in> set (fst (getArticlesFromHubSpot (newService True) sampleEnv)) \<and>
   articleId sampleHubSpotRoundup = IdStr ''hubspot_43'' \<and>
   idHasPrefix ''hubspot_'' (articleId sampleHubSpotRoundup) \<and>
   sheetFirm sampleEnv
        [(''ID'', ''''), (''Name'', ''Jones Law''), (''Specialties'', ''Roundup''),
         (''Location'', ''Miami, FL'')] 1
     \<in> set (fst (getLawFirmsFromGoogleSheets (newService True) sampleEnv None None)) \<and>
   prefix ''sheets_'' ''sheets_firm_0.25'' \<and>
   hubspotLawFirm
        \<lparr>hsId = ''9001'', hsName = Some ''Acme Legal'', hsLocation = ''Reno, NV'',
         hsPhone = None, hsWebsite = None, hsSpecialties = [''Mesothelioma''],
         hsExperience = None, hsSuccessRate = None, hsNotableSettlements = []\<rparr>
     \<in> set (fst (getLawFirmsFromHubSpot (newService True) sampleEnv None None)) \<and>
   prefix ''hubspot_'' ''hubspot_firm_9001'' \<and>
   hd getFallbackLawFirms \<in> set getFallbackLawFirms \<and>
   prefix ''fallback_'' (firmId (hd getFallbackLawFirms)) \<and>
   \<not> fresh (newService True) (lookupAt clk0) ''all_articles'' \<and>
   fst (getAllArticles (newService True) sampleEnv clk0) =
     ArticleList [sampleSheetArticle, sampleHubSpotRoundup] \<and>
   articleSource sampleSheetArticle \<noteq> articleSource sampleHubSpotRoundup \<and>
   articleId sampleSheetArticle \<noteq> articleId sampleHubSpotRoundup \<and>
   \<not> fresh (newService True) (lookupAt clk0) (lawFirmsKey None None) \<and>
   ''sheets_firm_0.25'' \<noteq> ''hubspot_firm_9001'' \<and>
   defaultSettlement ''Mesothelioma'' ''$1.2 million to $2.4 million'' ''$1.8 million'' ''Thousands''
     \<in> set (getDefaultSettlementData ''Mesothelioma'') \<and>
   settlementId (defaultSettlement ''Mesothelioma'' ''$1.2 million to $2.4 million''
                   ''$1.8 million'' ''Thousands'') = None"
proof -
  let ?jones = "sheetFirm sampleEnv
        [(''ID'', ''''), (''Name'', ''Jones Law''), (''Specialties'', ''Roundup''),
         (''Location'', ''Miami, FL'')] 1"
  let ?acme = "hubspotLawFirm
        \<lparr>hsId = ''9001'', hsName = Some ''Acme Legal'', hsLocation = ''Reno, NV'',
         hsPhone = None, hsWebsite = None, hsSpecialties = [''Mesothelioma''],
         hsExperience = None, hsSuccessRate = None, hsNotableSettlements = []\<rparr>"
  let ?d = "defaultSettlement ''Mesothelioma'' ''$1.2 million to $2.4 million'' ''$1.8 million'' ''Thousands''"
  have src: "articleSource sampleSheetArticle \<noteq> articleSource sampleHubSpotRoundup"
    "articleId sampleSheetArticle = IdStr ''sheets_medical_7''"
    "articleId sampleHubSpotRoundup = IdStr ''hubspot_43''"
    by (simp_all add: sampleSheetArticle_def sampleHubSpotRoundup_def)
  have fsrc: "firmSource ?jones \<noteq> firmSource ?acme"
    by (simp add: sheetFirm_def hubspotLawFirm_def)
  have hdf: "hd getFallbackLawFirms \<in> set getFallbackLawFirms"
    by (simp add: getFallbackLawFirms_def)
  note I1 = ids_prefixed_by_source [where a = sampleSheetArticle and svc = "newService True"
        and e = sampleEnv and f = ?jones and sp = None and loc = None and clk = clk0
        and xs = "[sampleSheetArticle, sampleHubSpotRoundup]"
        and x = sampleSheetArticle and y = sampleHubSpotRoundup
        and fs = "fst (getLawFirmsFromGoogleSheets (newService True) sampleEnv None None) @
                  fst (getLawFirmsFromHubSpot (newService True) sampleEnv None None)"
        and g = ?jones and h = ?acme and s = ?d and c = "''Mesothelioma''" and stateArg = None]
  note I2 = ids_prefixed_by_source [where a = sampleHubSpotRoundup and svc = "newService True"
        and e = sampleEnv and f = ?acme and sp = None and loc = None]
  note I3 = ids_prefixed_by_source [where f = "hd getFallbackLawFirms"]
  have t1: "idHasPrefix ''sheets_'' (articleId sampleSheetArticle) \<and> prefix ''sheets_'' (firmId ?jones) \<and>
            articleId sampleSheetArticle \<noteq> articleId sampleHubSpotRoundup \<and>
            firmId ?jones \<noteq> firmId ?acme \<and> settlementId ?d = None"
    using I1 fresh_service_miss sample_sheet_articles sample_sheet_firms sample_hubspot_firms
      sample_all_articles sample_all_firms src(1) fsrc sample_default
    by simp
  have t2: "idHasPrefix ''hubspot_'' (articleId sampleHubSpotRoundup) \<and> prefix ''hubspot_'' (firmId ?acme)"
    using I2 sample_hubspot_articles sample_hubspot_firms by simp
  have t3: "prefix ''fallback_'' (firmId (hd getFallbackLawFirms))"
    using I3 hdf by simp
  show ?thesis
    using t1 t2 t3 src hdf fresh_service_miss sample_all_articles
    by (simp add: sample_sheet_articles sample_hubspot_articles sample_sheet_firms
        sample_hubspot_firms sample_firm_ids sample_default)
qed

text \<open>
  Counterexample to C7 as stated: the fallback record that \<open>getSettlementData\<close> returns
  for \<open>Mesothelioma\<close> is tagged \<open>fallback\<close> and has no id. (The six fallback articles,
  also tagged \<open>fallback\<close>, carry the numbers 1 to 6 as ids.)
\<close>

theorem settlement_records_have_no_id_counterexample:
  "getDefaultSettlementData ''Mesothelioma'' =
     [defaultSettlement ''Mesothelioma'' ''$1.2 million to $2.4 million'' ''$1.8 million'' ''Thousands''] \<and>
   settlementSource (defaultSettlement ''Mesothelioma'' ''$1.2 million to $2.4 million''
                       ''$1.8 million'' ''Thousands'') = Some ''fallback'' \<and>
   settlementId (defaultSettlement ''Mesothelioma'' ''$1.2 million to $2.4 million''
                   ''$1.8 million'' ''Thousands'') = None \<and>
   map articleId (getFallbackArticles ''2026-01-01T00:00:00.000Z'') =
     [IdNum 1, IdNum 2, IdNum 3, IdNum 4, IdNum 5, IdNum 6]"
  by (simp add: sample_default)
     (simp add: defaultSettlement_def getFallbackArticles_def fallbackArticle1_def
        fallbackArticle2_def fallbackArticle3_def fallbackArticle4_def fallbackArticle5_def
        fallbackArticle6_def)

section \<open>Searching a sheet\<close>


lemma slice0_nonneg: "0 \<le> limit \<Longrightarrow> slice0 xs limit = take (nat limit) xs"
  by (simp add: slice0_def)

lemma slice0_Nil [simp]: "slice0 [] limit = []"
  by (simp add: slice0_def)















section \<open>Merging settlement data\<close>

lemma sameGroup_key: "sameGroup a x \<Longrightarrow> groupKey x = groupKey a"
  by (simp add: sameGroup_def groupKey_def stateOrAll_def)

lemma foldl_pick:
  "foldl pick b xs =
     (if complete b then b else (case find complete xs of Some x \<Rightarrow> x | None \<Rightarrow> b))"
  by (induction xs arbitrary: b) (auto simp: pick_def complete_def)

lemma reduceBest_bestOf: "g \<noteq> [] \<Longrightarrow> reduceBest g = Inr (bestOf g)"
  by (cases g) (auto simp: foldl_pick bestOf_def split: option.splits)

lemma find_complete_in: "find P xs = Some x \<Longrightarrow> x \<in> set xs \<and> P x"
  by (induction xs) (auto split: if_splits)

lemma find_complete_None: "find P xs = None \<Longrightarrow> \<forall>x \<in> set xs. \<not> P x"
  by (induction xs) (auto split: if_splits)

lemma bestOf_in: "g \<noteq> [] \<Longrightarrow> bestOf g \<in> set g"
  using find_complete_in [of complete g]
  by (cases "find complete g") (auto simp: bestOf_def)

lemma bestOf_complete: "x \<in> set g \<Longrightarrow> complete x \<Longrightarrow> complete (bestOf g)"
  using find_complete_in [of complete g] find_complete_None [of complete g]
  by (cases "find complete g") (auto simp: bestOf_def)

lemma sequence_map:
  "\<forall>x \<in> set xs. f x = Inr (h x) \<Longrightarrow> sequence (map f xs) = Inr (map h xs)"
  by (induction xs) auto

lemma addToGroup_distinct:
  "distinct (map fst al) \<Longrightarrow> distinct (map fst (addToGroup al x))"
  by (auto simp: addToGroup_def Let_def distinct_update map_of_eq_None_iff split: option.splits)

lemma addToGroup_map_of:
  "map_of (addToGroup al x) k =
     (if k = groupKey x
      then Some ((case map_of al k of None \<Rightarrow> [] | Some g \<Rightarrow> g) @ [x])
      else map_of al k)"
  by (auto simp: addToGroup_def Let_def update_conv' map_add_def split: option.splits)

lemma groups_distinct: "distinct (map fst (foldl addToGroup [] xs))"
  by (induction xs rule: rev_induct) (auto simp: addToGroup_distinct)

lemma groups_map_of:
  "map_of (foldl addToGroup [] xs) k =
     (if k \<in> groupKey ` set xs then Some (filter (\<lambda>x. groupKey x = k) xs) else None)"
proof (induction xs rule: rev_induct)
  case Nil
  show ?case by simp
next
  case (snoc x xs)
  have e: "filter (\<lambda>y. groupKey y = k) xs = []" if "k \<notin> groupKey ` set xs"
    using that by (auto simp: filter_empty_conv)
  show ?case
    using snoc e by (auto simp: addToGroup_map_of)
qed

lemma groups_entries:
  assumes "(k, g) \<in> set (foldl addToGroup [] xs)"
  shows "g = filter (\<lambda>x. groupKey x = k) xs \<and> g \<noteq> []"
proof -
  have "map_of (foldl addToGroup [] xs) k = Some g"
    using assms groups_distinct [of xs] by simp
  then have "k \<in> groupKey ` set xs" and g: "g = filter (\<lambda>x. groupKey x = k) xs"
    using groups_map_of [of xs k] by (auto split: if_splits)
  then show ?thesis by (auto simp: filter_empty_conv)
qed

lemma filter_key_distinct:
  "distinct (map fst al) \<Longrightarrow> map_of al k = Some v \<Longrightarrow> filter (\<lambda>p. fst p = k) al = [(k, v)]"
proof (induction al)
  case Nil
  then show ?case by simp
next
  case (Cons p al)
  obtain k' v' where p: "p = (k', v')" by (cases p)
  show ?case
  proof (cases "k' = k")
    case True
    then have "\<forall>q \<in> set al. fst q \<noteq> k" using Cons.prems(1) p by auto
    then have "filter (\<lambda>p. fst p = k) al = []" by (simp add: filter_empty_conv)
    then show ?thesis using True Cons.prems(2) p by simp
  next
    case False
    then show ?thesis using Cons p by simp
  qed
qed


lemma merge_value:
  assumes nok: "\<forall>x \<in> set (ss @ hs). groupKey x \<notin> set inheritedKeys"
  shows "mergeSettlementData ss hs =
     Inr (map (\<lambda>p. bestOf (snd p)) (foldl addToGroup [] (ss @ hs)))"
proof -
  have "\<forall>p \<in> set (foldl addToGroup [] (ss @ hs)).
          (case p of (k, g) \<Rightarrow> reduceBest g) = Inr (bestOf (snd p))"
    using groups_entries [of _ _ "ss @ hs"] reduceBest_bestOf by fastforce
  then have "sequence (map (\<lambda>(k, g). reduceBest g) (foldl addToGroup [] (ss @ hs))) =
      Inr (map (\<lambda>p. bestOf (snd p)) (foldl addToGroup [] (ss @ hs)))"
    by (rule sequence_map)
  then show ?thesis
    using nok by (simp add: mergeSettlementData_def list_ex_iff Let_def)
qed

lemma mergeSettlementData_complete_wins:
  assumes a: "a \<in> set (ss @ hs)" and ca: "complete a"
    and nok: "\<forall>x \<in> set (ss @ hs). groupKey x \<notin> set inheritedKeys"
    and nocoll: "\<forall>x \<in> set (ss @ hs). groupKey x = groupKey a \<longrightarrow> sameGroup a x"
  shows "\<exists>r. mergeSettlementData ss hs =
             Inr (map (\<lambda>p. bestOf (snd p)) (foldl addToGroup [] (ss @ hs))) \<and>
           filter (sameGroup a) (map (\<lambda>p. bestOf (snd p)) (foldl addToGroup [] (ss @ hs))) = [r] \<and>
           complete r \<and> r \<in> set (ss @ hs) \<and>
           r = bestOf (filter (\<lambda>x. groupKey x = groupKey a) (ss @ hs))"
proof -
  let ?xs = "ss @ hs"
  let ?G = "foldl addToGroup [] ?xs"
  let ?ka = "groupKey a"
  let ?ga = "filter (\<lambda>x. groupKey x = ?ka) ?xs"
  have ain: "a \<in> set ?ga" using a by simp
  have m: "map_of ?G ?ka = Some ?ga"
    using a groups_map_of [of ?xs ?ka] by auto
  have f: "filter (\<lambda>p. fst p = ?ka) ?G = [(?ka, ?ga)]"
    using filter_key_distinct [OF groups_distinct m] .
  have iff: "sameGroup a (bestOf (snd p)) \<longleftrightarrow> fst p = ?ka" if p: "p \<in> set ?G" for p
  proof -
    obtain k g where kg: "p = (k, g)" by (cases p)
    have g: "g = filter (\<lambda>x. groupKey x = k) ?xs" "g \<noteq> []"
      using groups_entries [of k g ?xs] p kg by auto
    have b: "bestOf g \<in> set g" using bestOf_in [OF g(2)] .
    then have bk: "groupKey (bestOf g) = k" and bin: "bestOf g \<in> set ?xs"
      using g(1) by auto
    show ?thesis
      using sameGroup_key [of a "bestOf g"] bk bin nocoll kg by auto
  qed
  have "filter (sameGroup a) (map (\<lambda>p. bestOf (snd p)) ?G) =
          map (\<lambda>p. bestOf (snd p)) (filter (\<lambda>p. fst p = ?ka) ?G)"
    using iff by (simp add: filter_map comp_def cong: filter_cong)
  then have one: "filter (sameGroup a) (map (\<lambda>p. bestOf (snd p)) ?G) = [bestOf ?ga]"
    using f by simp
  have c: "complete (bestOf ?ga)" using bestOf_complete [OF ain ca] .
  have i: "bestOf ?ga \<in> set ?xs"
    using bestOf_in [of ?ga] ain by (metis empty_iff filter_is_subset list.set(1) subsetD)
  show ?thesis using merge_value [OF nok] one c i by blast
qed



end
